theory Spec2Isabelle
  imports Main "HOL-Library.Word"
begin

section \<open>Data model of dbus.go\<close>

text \<open>
  Go strings and byte slices are sequences of bytes; a \<^typ>\<open>char\<close> is one byte, so both
  are modelled as \<^typ>\<open>string\<close>. An \<open>os.Error\<close> is an interface value that is either
  \<open>nil\<close> or carries a message: \<open>None\<close> is \<open>nil\<close>.
\<close>

type_synonym bytes = string

type_synonym os_Error = "string option"

definition os_NewError :: "string \<Rightarrow> os_Error" where
  "os_NewError s = Some s"

text \<open>
  A run-time panic of the Go program (a nil dereference, an index out of range, a
  negative length given to \<open>make\<close>) ends the process; it is the value \<open>Panic\<close>.
  A call that never returns (a read on a silent transport, a receive on a channel nobody
  sends on) is the value \<open>None\<close> of an enclosing option.
\<close>

datatype 'a result = Ok 'a | Panic

subsection \<open>Messages\<close>

text \<open>
  The declaration of \<open>Message\<close> is not part of dbus.go; the fields below are the ones
  dbus.go reads and writes. \<open>serial\<close> is converted with \<open>uint32(msg.serial)\<close> and
  \<open>replySerial\<close> indexes a \<open>map[uint32]\<close>, so the first is an integer and the second an
  unsigned 32-bit word. \<open>Params\<close> is an ordered vector of dynamically typed values.
  \<open>INVALID\<close> is the zero value of the type tag, which a message has before its type
  is set.
\<close>

datatype MessageType = INVALID | METHOD_CALL | METHOD_RETURN | ERROR | SIGNAL

datatype dbus_value = VString string | VUint32 "32 word" | VBool bool

record Message =
  Type :: MessageType
  Path :: string
  Dest :: string
  Intf :: string
  Member :: string
  Sig :: string
  Params :: "dbus_value list"
  serial :: int
  replySerial :: "32 word"

subsection \<open>Introspection data\<close>

text \<open>
  \<open>Introspect\<close>, \<open>InterfaceData\<close> and \<open>MethodData\<close> are Go interface types declared
  outside dbus.go; dbus.go only calls their lookup methods and compares them with
  \<open>nil\<close>. A non-nil value is given by what its methods return; \<open>None\<close> is \<open>nil\<close>.
\<close>

datatype MethodData_obj = MethodData_obj (GetInSignature: string)

type_synonym MethodData = "MethodData_obj option"

datatype InterfaceData_obj = InterfaceData_obj (GetMethodData: "string \<Rightarrow> MethodData")

type_synonym InterfaceData = "InterfaceData_obj option"

datatype Introspect_obj = Introspect_obj (GetInterfaceData: "string \<Rightarrow> InterfaceData")

type_synonym Introspect = "Introspect_obj option"

subsection \<open>The process state outside the Connection\<close>

text \<open>
  Callbacks are closures; what they can touch is collected in the \<open>world\<close>: standard
  output, the channels created by \<open>make(chan int)\<close> (a channel is named by a number, and
  \<open>sent_on\<close> lists the channels on which a send is waiting for its receiver), the
  local variables \<open>intro\<close> captured by the closures of \<open>_GetIntrospect\<close> (a store
  from addresses to values), and the serial counter behind \<open>NewMessage\<close>.
\<close>

datatype printed = Line string | Dump Message

record world =
  stdout :: "printed list"
  sent_on :: "nat list"
  next_chan :: nat
  intro_var :: "nat \<Rightarrow> Introspect"
  next_var :: nat
  next_serial :: int

type_synonym callback = "Message \<Rightarrow> world \<Rightarrow> world result"

subsection \<open>The transport\<close>

text \<open>
  \<open>net.Conn\<close> is modelled by what it does to the program: \<open>outbox\<close> holds the byte
  strings of the writes that went through, \<open>inbox\<close> the outcomes of the reads still to
  come (the bytes the peer delivers, or a read error), and \<open>wr_error\<close> the error every
  write fails with when the transport is broken for writing.
\<close>

datatype read_event = Data bytes | Failure string

record socket =
  outbox :: "bytes list"
  inbox :: "read_event list"
  wr_error :: os_Error

text \<open>\<open>conn.Write(b)\<close> returns the number of bytes written and an error.\<close>

definition conn_Write :: "socket \<Rightarrow> bytes \<Rightarrow> socket \<times> nat \<times> os_Error" where
  "conn_Write s b =
     (case wr_error s of
        Some e \<Rightarrow> (s, 0, Some e)
      | None \<Rightarrow> (s\<lparr>outbox := outbox s @ [b]\<rparr>, length b, None))"

text \<open>
  \<open>conn.Read(b)\<close> with \<open>len(b) = cap\<close> returns the bytes it stored in \<open>b[0:n]\<close> and an
  error. It delivers at most \<open>cap\<close> bytes of what has arrived and leaves the rest for the
  next read; with nothing left to arrive it blocks for ever.
\<close>

definition conn_Read :: "socket \<Rightarrow> nat \<Rightarrow> (socket \<times> bytes \<times> os_Error) option" where
  "conn_Read s cap =
     (case inbox s of
        [] \<Rightarrow> None
      | Failure e # rest \<Rightarrow> Some (s\<lparr>inbox := rest\<rparr>, [], Some e)
      | Data d # rest \<Rightarrow>
          Some (s\<lparr>inbox := (if length d \<le> cap then rest else Data (drop cap d) # rest)\<rparr>,
                take cap d, None))"

subsection \<open>Connection, Object, Interface\<close>

text \<open>
  A Connection is taken as the constructors and \<open>Initialize\<close> leave it: the transport
  open, the reply map and the buffer allocated (\<open>Initialize\<close> makes both before
  anything else). The \<open>obj\<close> of an Interface is the Object itself: the only function
  that builds an Interface, \<open>Connection.Interface\<close>, returns \<open>nil\<close> for a nil Object.
\<close>

record Connection =
  path :: string
  uniqName :: string
  guid :: string
  methodCallReplies :: "32 word \<rightharpoonup> callback"
  conn :: socket
  buffer :: bytes

record Object =
  obj_dest :: string
  obj_path :: string
  obj_intro :: Introspect

record Interface =
  intf_obj :: Object
  intf_name :: string
  intf_intro :: InterfaceData

subsection \<open>The collaborators declared outside dbus.go\<close>

text \<open>
  The codec (\<open>_Unmarshal\<close>, \<open>_Marshal\<close>) and the introspection parser
  (\<open>NewIntrospect\<close>) are parameters. Each returns what the Go function returns:
  \<open>_Unmarshal(bytes)\<close> a message pointer, a byte count and an error, \<open>msg._Marshal()\<close>
  bytes and an error, \<open>NewIntrospect(xml)\<close> an \<open>Introspect\<close> and an error.
\<close>

record externals =
  Unmarshal :: "bytes \<Rightarrow> Message option \<times> int \<times> os_Error"
  Marshal :: "Message \<Rightarrow> bytes \<times> os_Error"
  NewIntrospect :: "string \<Rightarrow> Introspect \<times> os_Error"

section \<open>Frame buffer and dispatch\<close>

text \<open>
  \<open>_PopMessage\<close>: on an error of the codec the error is returned and nothing else
  happens. Otherwise \<open>p.buffer.Read(make([]byte, n))\<close> drops the first \<open>n\<close> bytes of the
  buffer (all of them when there are fewer); \<open>make\<close> panics on a negative length.
\<close>

definition PopMessage ::
  "(bytes \<Rightarrow> Message option \<times> int \<times> os_Error) \<Rightarrow> Connection
     \<Rightarrow> ((Message option \<times> os_Error) \<times> Connection) result" where
  "PopMessage unmarshal p =
     (case unmarshal (buffer p) of
        (msg, n, err) \<Rightarrow>
          if err \<noteq> None then Ok ((None, err), p)
          else if n < 0 then Panic
          else Ok ((msg, None), p\<lparr>buffer := drop (nat n) (buffer p)\<rparr>))"

text \<open>
  \<open>_UpdateBuffer\<close>: one read of at most 4096 bytes, appended to the buffer; the read
  error is returned.
\<close>

definition UpdateBuffer :: "Connection \<Rightarrow> (os_Error \<times> Connection) option" where
  "UpdateBuffer p =
     (case conn_Read (conn p) 4096 of
        None \<Rightarrow> None
      | Some (c, buff, e) \<Rightarrow> Some (e, p\<lparr>conn := c, buffer := buffer p @ buff\<rparr>))"

text \<open>
  \<open>_MessageDispatch\<close>: a method return whose reply serial is registered runs the
  registered function and then deletes the entry
  (\<open>p.methodCallReplies[rs] = nil, false\<close>); an error message is printed; everything
  else is ignored.
\<close>

definition MessageDispatch ::
  "Message option \<Rightarrow> Connection \<Rightarrow> world \<Rightarrow> (Connection \<times> world) result" where
  "MessageDispatch msg p w =
     (case msg of
        None \<Rightarrow> Ok (p, w)
      | Some m \<Rightarrow>
          (case Type m of
             METHOD_RETURN \<Rightarrow>
               (let rs = replySerial m in
                case methodCallReplies p rs of
                  Some replyFunc \<Rightarrow>
                    (case replyFunc m w of
                       Panic \<Rightarrow> Panic
                     | Ok w' \<Rightarrow>
                         Ok (p\<lparr>methodCallReplies := (methodCallReplies p)(rs := None)\<rparr>, w'))
                | None \<Rightarrow> Ok (p, w))
           | ERROR \<Rightarrow> Ok (p, w\<lparr>stdout := stdout w @ [Line ''ERROR'', Dump m]\<rparr>)
           | _ \<Rightarrow> Ok (p, w)))"

text \<open>
  One iteration of the loop of \<open>_MessageReceiver\<close>: a popped message is handed over on
  \<open>msgChan\<close>; on any error of \<open>_PopMessage\<close> the loop calls \<open>_UpdateBuffer\<close>
  (whose result it ignores) and goes round again.
\<close>

datatype receiver_step = Delivered "Message option" | Refilled

definition MessageReceiver_iteration ::
  "(bytes \<Rightarrow> Message option \<times> int \<times> os_Error) \<Rightarrow> Connection
     \<Rightarrow> (receiver_step \<times> Connection) result option" where
  "MessageReceiver_iteration unmarshal p =
     (case PopMessage unmarshal p of
        Panic \<Rightarrow> Some Panic
      | Ok ((msg, e), p1) \<Rightarrow>
          if e = None then Some (Ok (Delivered msg, p1))
          else (case UpdateBuffer p1 of
                  None \<Rightarrow> None
                | Some (_, p2) \<Rightarrow> Some (Ok (Refilled, p2))))"

text \<open>
  \<open>_RunLoop\<close> and \<open>_MessageReceiver\<close> never return. What a caller blocked in
  \<open><-recvChan\<close> observes of them is the run of the two loops up to the moment a send on
  \<open>recvChan\<close> is waiting: every message \<open>_MessageReceiver\<close> hands over is dispatched by
  \<open>_RunLoop\<close>, in order. The function returns the state at that moment (the receive
  takes the value off the channel), \<open>Panic\<close> when the loops panic first, and \<open>None\<close>
  when the send never happens. The loops run in goroutines of their own; the steps they
  take while no caller waits are counted here as the first steps of the next wait, which
  is one of the orders the scheduler may choose. The functions in the registry act on the
  \<open>world\<close> only: none of the callbacks in dbus.go touches the Connection.
\<close>

partial_function (option) RunLoop_until ::
  "(bytes \<Rightarrow> Message option \<times> int \<times> os_Error) \<Rightarrow> nat \<Rightarrow> Connection \<Rightarrow> world
     \<Rightarrow> (Connection \<times> world) result option" where
  "RunLoop_until unmarshal recvChan p w =
     (if recvChan \<in> set (sent_on w)
      then Some (Ok (p, w\<lparr>sent_on := remove1 recvChan (sent_on w)\<rparr>))
      else
        (case MessageReceiver_iteration unmarshal p of
           None \<Rightarrow> None
         | Some Panic \<Rightarrow> Some Panic
         | Some (Ok (Refilled, p1)) \<Rightarrow> RunLoop_until unmarshal recvChan p1 w
         | Some (Ok (Delivered msg, p1)) \<Rightarrow>
             (case MessageDispatch msg p1 w of
                Panic \<Rightarrow> Some Panic
              | Ok (p2, w2) \<Rightarrow> RunLoop_until unmarshal recvChan p2 w2)))"

section \<open>Sending a call and waiting for its reply\<close>

text \<open>
  \<open>_SendSync\<close>: the key is \<open>uint32(msg.serial)\<close>; the registered function runs the
  callback and then sends on the fresh channel \<open>recvChan\<close>; the results of
  \<open>_Marshal\<close> and of \<open>Write\<close> other than the bytes are dropped; the caller then waits
  on \<open>recvChan\<close> and returns \<open>nil\<close>.
\<close>

definition seri_of :: "Message \<Rightarrow> 32 word" where
  "seri_of msg = word_of_int (serial msg)"

definition signalling :: "callback \<Rightarrow> nat \<Rightarrow> callback" where
  "signalling callback recvChan rmsg w =
     (case callback rmsg w of
        Panic \<Rightarrow> Panic
      | Ok w' \<Rightarrow> Ok (w'\<lparr>sent_on := sent_on w' @ [recvChan]\<rparr>))"

definition SendSync ::
  "externals \<Rightarrow> Message \<Rightarrow> callback \<Rightarrow> Connection \<Rightarrow> world
     \<Rightarrow> (os_Error \<times> Connection \<times> world) result option" where
  "SendSync X msg callback p w =
     (let seri = seri_of msg;
          recvChan = next_chan w;
          w1 = w\<lparr>next_chan := Suc recvChan\<rparr>;
          p1 = p\<lparr>methodCallReplies :=
                   (methodCallReplies p)(seri \<mapsto> signalling callback recvChan)\<rparr>;
          buff = fst (Marshal X msg);
          p2 = p1\<lparr>conn := fst (conn_Write (conn p1) buff)\<rparr>
      in case RunLoop_until (Unmarshal X) recvChan p2 w1 of
           None \<Rightarrow> None
         | Some Panic \<Rightarrow> Some Panic
         | Some (Ok (p3, w3)) \<Rightarrow> Some (Ok (None, p3, w3)))"

text \<open>
  Modelled from the spec: \<open>NewMessage\<close> is not part of dbus.go. The spec calls the
  serial a monotonically assigned identifier, fresh for every call; the model takes
  the next value of a counter and advances it. The other fields start at their zero
  values, with no parameters.
\<close>

definition NewMessage :: "world \<Rightarrow> Message \<times> world" where
  "NewMessage w =
     (\<lparr>Type = INVALID, Path = [], Dest = [], Intf = [], Member = [], Sig = [],
       Params = [], serial = next_serial w, replySerial = 0\<rparr>,
      w\<lparr>next_serial := next_serial w + 1\<rparr>)"

definition SendHello ::
  "externals \<Rightarrow> Connection \<Rightarrow> world \<Rightarrow> (os_Error \<times> Connection \<times> world) result option" where
  "SendHello X p w =
     (let (msg0, w0) = NewMessage w;
          msg = msg0\<lparr>Type := METHOD_CALL, Path := ''/org/freedesktop/DBus'',
                     Intf := ''org.freedesktop.DBus'', Dest := ''org.freedesktop.DBus'',
                     Member := ''Hello''\<rparr>
      in case SendSync X msg
                (\<lambda>reply w'. Ok (w'\<lparr>stdout := stdout w' @ [Line ''send hello success'']\<rparr>)) p w0 of
           None \<Rightarrow> None
         | Some Panic \<Rightarrow> Some Panic
         | Some (Ok (_, p', w')) \<Rightarrow> Some (Ok (None, p', w')))"

section \<open>The handshake\<close>

definition NUL :: char where
  "NUL = CHR 0x00"

definition CRLF :: string where
  "CRLF = [CHR 0x0D, CHR 0x0A]"

text \<open>\<open>fmt.Sprintf("%d", i)\<close> and \<open>fmt.Sprintf("%x", s)\<close> (two lower-case hex digits a byte).\<close>

fun decimal_nat :: "nat \<Rightarrow> string" where
  "decimal_nat n =
     (if n < 10 then [''0123456789'' ! n]
      else decimal_nat (n div 10) @ [''0123456789'' ! (n mod 10)])"

declare decimal_nat.simps [simp del]

definition Sprintf_d :: "int \<Rightarrow> string" where
  "Sprintf_d i = (if i < 0 then CHR ''-'' # decimal_nat (nat (- i)) else decimal_nat (nat i))"

definition Sprintf_x :: "string \<Rightarrow> string" where
  "Sprintf_x s =
     concat (map (\<lambda>c. [''0123456789abcdef'' ! (of_char c div 16),
                        ''0123456789abcdef'' ! (of_char c mod 16)]) s)"

text \<open>
  The regular expression \<open>^OK ([0-9a-fA-F]+)\<close> run on a string: the result is empty
  when there is no match, and otherwise the index pairs of the whole match and of the
  group, which is the longest run of hex digits after \<open>OK \<close>.
\<close>

definition is_hex :: "char \<Rightarrow> bool" where
  "is_hex c = (c \<in> set ''0123456789abcdefABCDEF'')"

definition ExecuteString_OK :: "string \<Rightarrow> nat list" where
  "ExecuteString_OK s =
     (if take 3 s = ''OK '' \<and> takeWhile is_hex (drop 3 s) \<noteq> []
      then [0, 3 + length (takeWhile is_hex (drop 3 s)),
            3, 3 + length (takeWhile is_hex (drop 3 s))]
      else [])"

text \<open>
  \<open>_Auth\<close>: two writes, one read into a zeroed buffer of 1000 bytes, the match on the
  whole buffer as a string, and on a match the guid and the write of \<open>BEGIN\<close>.
\<close>

definition AUTH_EXTERNAL :: "int \<Rightarrow> bytes" where
  "AUTH_EXTERNAL uid = ''AUTH EXTERNAL '' @ Sprintf_x (Sprintf_d uid) @ CRLF"

definition Auth :: "int \<Rightarrow> Connection \<Rightarrow> (os_Error \<times> Connection) option" where
  "Auth uid p =
     (let c1 = fst (conn_Write (conn p) [NUL]);
          c2 = fst (conn_Write c1 (AUTH_EXTERNAL uid))
      in case conn_Read c2 1000 of
           None \<Rightarrow> None
         | Some (c3, got, _) \<Rightarrow>
             (let retstr = got @ replicate (1000 - length got) NUL;
                  m = ExecuteString_OK retstr
              in if m \<noteq> []
                 then Some (None,
                            p\<lparr>guid := take (m ! 3 - m ! 2) (drop (m ! 2) retstr),
                              conn := fst (conn_Write c3 (''BEGIN'' @ CRLF))\<rparr>)
                 else Some (os_NewError ''Auth Failed'', p\<lparr>conn := c3\<rparr>)))"

text \<open>
  The pattern in the words of the specification, to compare with the regular expression:
  the response is \<open>OK\<close>, a space, and the guid \<open>g\<close>, which is one or more hex digits
  and all the hex digits found there (what follows, if anything, starts with another
  character).
\<close>

definition OK_guid_response :: "string \<Rightarrow> string \<Rightarrow> bool" where
  "OK_guid_response r g =
     (g \<noteq> [] \<and> (\<forall>c \<in> set g. is_hex c)
      \<and> (\<exists>t. r = ''OK '' @ g @ t \<and> (t = [] \<or> \<not> is_hex (hd t))))"

text \<open>
  \<open>Initialize\<close>: the result of \<open>_Auth\<close> is not looked at; \<open>go p._RunLoop()\<close> starts
  the loops whose steps \<open>RunLoop_until\<close> accounts for; the result is \<open>nil\<close>.
\<close>

definition Initialize ::
  "externals \<Rightarrow> int \<Rightarrow> Connection \<Rightarrow> world
     \<Rightarrow> (os_Error \<times> Connection \<times> world) result option" where
  "Initialize X uid p w =
     (case Auth uid (p\<lparr>methodCallReplies := Map.empty, buffer := []\<rparr>) of
        None \<Rightarrow> None
      | Some (_, p1) \<Rightarrow>
          (case SendHello X p1 w of
             None \<Rightarrow> None
           | Some Panic \<Rightarrow> Some Panic
           | Some (Ok (_, p2, w2)) \<Rightarrow> Some (Ok (None, p2, w2))))"

section \<open>Objects, interfaces and method calls\<close>

text \<open>
  The callback of \<open>_GetIntrospect\<close>: \<open>reply.Params.At(0)\<close> indexes the vector and
  panics when it is empty; the variable \<open>intro\<close> at address \<open>a\<close> is assigned only when
  the value is a string and \<open>NewIntrospect\<close> returns no error.
\<close>

definition introspect_reply :: "(string \<Rightarrow> Introspect \<times> os_Error) \<Rightarrow> nat \<Rightarrow> callback" where
  "introspect_reply parse a reply w =
     (case Params reply of
        [] \<Rightarrow> Panic
      | v # _ \<Rightarrow>
          (case v of
             VString s \<Rightarrow>
               (case parse s of
                  (i, err) \<Rightarrow> if err = None then Ok (w\<lparr>intro_var := (intro_var w)(a := i)\<rparr>)
                              else Ok w)
           | _ \<Rightarrow> Ok w))"

definition GetIntrospect ::
  "externals \<Rightarrow> string \<Rightarrow> string \<Rightarrow> Connection \<Rightarrow> world
     \<Rightarrow> (Introspect \<times> Connection \<times> world) result option" where
  "GetIntrospect X dest pth p w =
     (let (msg0, w0) = NewMessage w;
          msg = msg0\<lparr>Type := METHOD_CALL, Path := pth, Dest := dest,
                     Intf := ''org.freedesktop.DBus.Introspectable'',
                     Member := ''Introspect''\<rparr>;
          a = next_var w0;
          w1 = w0\<lparr>next_var := Suc a, intro_var := (intro_var w0)(a := None)\<rparr>
      in case SendSync X msg (introspect_reply (NewIntrospect X) a) p w1 of
           None \<Rightarrow> None
         | Some Panic \<Rightarrow> Some Panic
         | Some (Ok (_, p', w')) \<Rightarrow> Some (Ok (intro_var w' a, p', w')))"

text \<open>\<open>Connection.Interface\<close>: \<open>nil\<close> unless the object has introspection data that knows the name.\<close>

definition Connection_Interface :: "Object option \<Rightarrow> string \<Rightarrow> Interface option" where
  "Connection_Interface ob name =
     (case ob of
        None \<Rightarrow> None
      | Some ob' \<Rightarrow>
          (case obj_intro ob' of
             None \<Rightarrow> None
           | Some i \<Rightarrow>
               (case GetInterfaceData i name of
                  None \<Rightarrow> None
                | Some d \<Rightarrow> Some \<lparr>intf_obj = ob', intf_name = name, intf_intro = Some d\<rparr>)))"

text \<open>
  \<open>CallMethod\<close>: the method lookup on a nil \<open>intf.intro\<close> is a nil dereference; an
  unknown method is the error \<open>Invalid Method\<close>; the arguments that are not nil become
  the parameters, in order.
\<close>

definition CallMethod ::
  "externals \<Rightarrow> Interface \<Rightarrow> string \<Rightarrow> dbus_value option list \<Rightarrow> Connection \<Rightarrow> world
     \<Rightarrow> (os_Error \<times> Connection \<times> world) result option" where
  "CallMethod X intf name args p w =
     (case intf_intro intf of
        None \<Rightarrow> Some Panic
      | Some d \<Rightarrow>
          (case GetMethodData d name of
             None \<Rightarrow> Some (Ok (os_NewError ''Invalid Method'', p, w))
           | Some method \<Rightarrow>
               (let (msg0, w0) = NewMessage w;
                    msg1 = msg0\<lparr>Params := Params msg0 @ List.map_filter (\<lambda>a. a) args\<rparr>;
                    msg = msg1\<lparr>Type := METHOD_CALL, Path := obj_path (intf_obj intf),
                               Intf := intf_name intf, Dest := obj_dest (intf_obj intf),
                               Member := name, Sig := GetInSignature method\<rparr>
                in case SendSync X msg
                          (\<lambda>reply w'. Ok (w'\<lparr>stdout := stdout w' @
                                              [Line (''Method Call Comp: '' @ name)]\<rparr>)) p w0 of
                     None \<Rightarrow> None
                   | Some Panic \<Rightarrow> Some Panic
                   | Some (Ok (_, p', w')) \<Rightarrow> Some (Ok (None, p', w')))))"

definition GetObject ::
  "externals \<Rightarrow> string \<Rightarrow> string \<Rightarrow> Connection \<Rightarrow> world
     \<Rightarrow> (Object \<times> Connection \<times> world) result option" where
  "GetObject X dest pth p w =
     (case GetIntrospect X dest pth p w of
        None \<Rightarrow> None
      | Some Panic \<Rightarrow> Some Panic
      | Some (Ok (i, p', w')) \<Rightarrow>
          Some (Ok (\<lparr>obj_dest = dest, obj_path = pth, obj_intro = i\<rparr>, p', w')))"

section \<open>Several calls outstanding\<close>

text \<open>
  \<open>_SendSync\<close> up to the receive on \<open>recvChan\<close>: the channel the caller waits on and
  the state in which it starts to wait, its callback registered and its message written.
\<close>

definition SendSync_send ::
  "externals \<Rightarrow> Message \<Rightarrow> callback \<Rightarrow> Connection \<Rightarrow> world \<Rightarrow> nat \<times> Connection \<times> world" where
  "SendSync_send X msg callback p w =
     (let seri = seri_of msg;
          recvChan = next_chan w;
          w1 = w\<lparr>next_chan := Suc recvChan\<rparr>;
          p1 = p\<lparr>methodCallReplies :=
                   (methodCallReplies p)(seri \<mapsto> signalling callback recvChan)\<rparr>;
          buff = fst (Marshal X msg);
          p2 = p1\<lparr>conn := fst (conn_Write (conn p1) buff)\<rparr>
      in (recvChan, p2, w1))"

text \<open>
  The three callers of \<open>_SendSync\<close> in dbus.go, each up to the same point:
  \<open>_SendHello\<close>, \<open>_GetIntrospect\<close> and \<open>CallMethod\<close> build their message from
  \<open>NewMessage()\<close> and pass it on with their callback. \<open>issue\<close> returns the message, the
  channel and the state in which the caller waits; a \<open>CallMethod\<close> whose method lookup
  fails sends nothing.
\<close>

datatype call =
    Call_Hello
  | Call_Introspect string string
  | Call_Method Interface string "dbus_value option list"

definition issue ::
  "externals \<Rightarrow> call \<Rightarrow> Connection \<Rightarrow> world
     \<Rightarrow> (Message \<times> nat \<times> Connection \<times> world) option" where
  "issue X c p w =
     (case c of
        Call_Hello \<Rightarrow>
          (let (msg0, w0) = NewMessage w;
               msg = msg0\<lparr>Type := METHOD_CALL, Path := ''/org/freedesktop/DBus'',
                          Intf := ''org.freedesktop.DBus'', Dest := ''org.freedesktop.DBus'',
                          Member := ''Hello''\<rparr>
           in Some (msg, SendSync_send X msg
                      (\<lambda>reply w'. Ok (w'\<lparr>stdout := stdout w' @ [Line ''send hello success'']\<rparr>))
                      p w0))
      | Call_Introspect dest pth \<Rightarrow>
          (let (msg0, w0) = NewMessage w;
               msg = msg0\<lparr>Type := METHOD_CALL, Path := pth, Dest := dest,
                          Intf := ''org.freedesktop.DBus.Introspectable'',
                          Member := ''Introspect''\<rparr>;
               a = next_var w0;
               w1 = w0\<lparr>next_var := Suc a, intro_var := (intro_var w0)(a := None)\<rparr>
           in Some (msg, SendSync_send X msg (introspect_reply (NewIntrospect X) a) p w1))
      | Call_Method intf name args \<Rightarrow>
          (case intf_intro intf of
             None \<Rightarrow> None
           | Some d \<Rightarrow>
               (case GetMethodData d name of
                  None \<Rightarrow> None
                | Some method \<Rightarrow>
                    (let (msg0, w0) = NewMessage w;
                         msg1 = msg0\<lparr>Params := Params msg0 @ List.map_filter (\<lambda>a. a) args\<rparr>;
                         msg = msg1\<lparr>Type := METHOD_CALL, Path := obj_path (intf_obj intf),
                                    Intf := intf_name intf, Dest := obj_dest (intf_obj intf),
                                    Member := name, Sig := GetInSignature method\<rparr>
                     in Some (msg, SendSync_send X msg
                                (\<lambda>reply w'. Ok (w'\<lparr>stdout := stdout w' @
                                                    [Line (''Method Call Comp: '' @ name)]\<rparr>))
                                p w0)))))"

text \<open>
  While one caller waits, another may make its call, and the dispatcher handles the
  frames that come in. A history of the Connection is a sequence of such events, the
  send parts of the calls taken one at a time; \<open>run\<close> lists, for every call of the
  history, the message it sent and whether its key was already in the reply map when it
  registered.
\<close>

datatype event = Calls call | Arrives Message

fun calls_in :: "event list \<Rightarrow> nat" where
  "calls_in [] = 0"
| "calls_in (Calls c # es) = Suc (calls_in es)"
| "calls_in (Arrives m # es) = calls_in es"

fun run :: "externals \<Rightarrow> event list \<Rightarrow> Connection \<Rightarrow> world \<Rightarrow> (Message \<times> bool) list" where
  "run X [] p w = []"
| "run X (Calls c # es) p w =
     (case issue X c p w of
        None \<Rightarrow> run X es p w
      | Some (msg, ch, p', w') \<Rightarrow>
          (msg, methodCallReplies p (seri_of msg) \<noteq> None) # run X es p' w')"
| "run X (Arrives m # es) p w =
     (case MessageDispatch (Some m) p w of
        Panic \<Rightarrow> []
      | Ok (p', w') \<Rightarrow> run X es p' w')"

text \<open>
  What holds of the reply map along a history: its functions leave the serial counter
  alone, and its keys come from serials handed out since \<open>s0\<close>.
\<close>

definition counter_kept :: "callback \<Rightarrow> bool" where
  "counter_kept f = (\<forall>m w w'. f m w = Ok w' \<longrightarrow> next_serial w' = next_serial w)"

definition registered_since :: "int \<Rightarrow> Connection \<Rightarrow> world \<Rightarrow> bool" where
  "registered_since s0 p w =
     (s0 \<le> next_serial w
      \<and> (\<forall>k f. methodCallReplies p k = Some f \<longrightarrow>
             counter_kept f \<and> (\<exists>s. s0 \<le> s \<and> s < next_serial w \<and> k = word_of_int s)))"

section \<open>A small peer to run the code against\<close>

text \<open>
  A codec with frames of three bytes (the type \<open>R\<close> or \<open>E\<close>, the reply serial, one
  byte choosing the parameters), a parser that knows one document, and the state of a
  fresh process. They serve as concrete inputs.
\<close>

definition fixture_frame :: "MessageType \<Rightarrow> 32 word \<Rightarrow> dbus_value list \<Rightarrow> Message" where
  "fixture_frame t rs ps =
     \<lparr>Type = t, Path = [], Dest = [], Intf = [], Member = [], Sig = [],
      Params = ps, serial = 0, replySerial = rs\<rparr>"

definition fixture_params :: "char \<Rightarrow> dbus_value list" where
  "fixture_params a =
     (if a = CHR ''x'' then [VString ''<node/>'']
      else if a = CHR ''e'' then [VString ''echo'']
      else if a = CHR ''n'' then [VUint32 7]
      else [])"

definition fixture_Unmarshal :: "bytes \<Rightarrow> Message option \<times> int \<times> os_Error" where
  "fixture_Unmarshal bs =
     (case bs of
        k # s # a # _ \<Rightarrow>
          if k = CHR ''R''
          then (Some (fixture_frame METHOD_RETURN (of_nat (of_char s)) (fixture_params a)), 3, None)
          else if k = CHR ''E''
          then (Some (fixture_frame ERROR (of_nat (of_char s)) (fixture_params a)), 3, None)
          else (None, 0, Some ''malformed frame'')
      | _ \<Rightarrow> (None, 0, Some ''incomplete frame''))"

definition fixture_Ping :: MethodData_obj where
  "fixture_Ping = MethodData_obj ''s''"

definition fixture_Echo :: InterfaceData_obj where
  "fixture_Echo = InterfaceData_obj (\<lambda>n. if n = ''Ping'' then Some fixture_Ping else None)"

definition fixture_Introspect :: Introspect_obj where
  "fixture_Introspect =
     Introspect_obj (\<lambda>n. if n = ''com.example.Echo'' then Some fixture_Echo else None)"

definition fixture_NewIntrospect :: "string \<Rightarrow> Introspect \<times> os_Error" where
  "fixture_NewIntrospect s =
     (if s = ''echo'' then (Some fixture_Introspect, None) else (None, Some ''parse error''))"

definition fixture_externals :: externals where
  "fixture_externals =
     \<lparr>Unmarshal = fixture_Unmarshal, Marshal = (\<lambda>m. (''C'', None)),
      NewIntrospect = fixture_NewIntrospect\<rparr>"

definition fixture_Object :: Object where
  "fixture_Object =
     \<lparr>obj_dest = ''com.example.Echo'', obj_path = ''/com/example/Echo'',
      obj_intro = Some fixture_Introspect\<rparr>"

definition fixture_Interface :: Interface where
  "fixture_Interface =
     \<lparr>intf_obj = fixture_Object, intf_name = ''com.example.Echo'',
      intf_intro = Some fixture_Echo\<rparr>"

text \<open>The same collaborators with a codec that cannot marshal, and a transport that cannot write.\<close>

definition fixture_failing_externals :: externals where
  "fixture_failing_externals =
     fixture_externals\<lparr>Marshal := (\<lambda>m. ([], Some ''marshal failed''))\<rparr>"

definition fixture_broken_Connection :: "read_event list \<Rightarrow> Connection" where
  "fixture_broken_Connection evs =
     \<lparr>path = ''unix:path=/var/run/dbus/system_bus_socket'', uniqName = [], guid = [],
      methodCallReplies = Map.empty,
      conn = \<lparr>outbox = [], inbox = evs, wr_error = Some ''broken pipe''\<rparr>, buffer = []\<rparr>"

definition fixture_Connection :: "read_event list \<Rightarrow> Connection" where
  "fixture_Connection evs =
     \<lparr>path = ''unix:path=/var/run/dbus/system_bus_socket'', uniqName = [], guid = [],
      methodCallReplies = Map.empty,
      conn = \<lparr>outbox = [], inbox = evs, wr_error = None\<rparr>, buffer = []\<rparr>"

definition fixture_world :: world where
  "fixture_world =
     \<lparr>stdout = [], sent_on = [], next_chan = 0, intro_var = (\<lambda>a. None), next_var = 0,
      next_serial = 1\<rparr>"

section \<open>Reply correlation\<close>

text \<open>
  C1. For every incoming method return: when its reply serial is not registered the
  frame is dropped and neither the registry nor anything else changes; when it is
  registered, the registered function runs on this frame, once (the world afterwards is
  the one a single run of it produces), the entry is deleted and the rest of the registry
  is kept, so that any later method return with the same reply serial finds no entry and
  changes nothing. A registered function that panics takes the process down with it.
\<close>

theorem MessageDispatch_method_return:
  assumes "Type m = METHOD_RETURN"
  shows "(methodCallReplies p (replySerial m) = None \<longrightarrow>
            MessageDispatch (Some m) p w = Ok (p, w))
       \<and> (\<forall>f. methodCallReplies p (replySerial m) = Some f \<and> f m w = Panic \<longrightarrow>
            MessageDispatch (Some m) p w = Panic)
       \<and> (\<forall>f w'. methodCallReplies p (replySerial m) = Some f \<and> f m w = Ok w' \<longrightarrow>
            MessageDispatch (Some m) p w =
              Ok (p\<lparr>methodCallReplies := (methodCallReplies p)(replySerial m := None)\<rparr>, w')
            \<and> (\<forall>m2 w2. Type m2 = METHOD_RETURN \<and> replySerial m2 = replySerial m \<longrightarrow>
                  MessageDispatch (Some m2)
                    (p\<lparr>methodCallReplies := (methodCallReplies p)(replySerial m := None)\<rparr>) w2 =
                  Ok (p\<lparr>methodCallReplies := (methodCallReplies p)(replySerial m := None)\<rparr>, w2)))"
  using assms by (simp add: MessageDispatch_def)

theorem MessageDispatch_method_return_witness:
  "Type (fixture_frame METHOD_RETURN 5 []) = METHOD_RETURN
   \<and> MessageDispatch (Some (fixture_frame METHOD_RETURN 5 []))
        ((fixture_Connection [])\<lparr>methodCallReplies :=
            [5 \<mapsto> (\<lambda>r w. Ok (w\<lparr>stdout := stdout w @ [Line ''reply'']\<rparr>))]\<rparr>)
        fixture_world
      = Ok (fixture_Connection [], fixture_world\<lparr>stdout := [Line ''reply'']\<rparr>)
   \<and> MessageDispatch (Some (fixture_frame METHOD_RETURN 5 []))
        (fixture_Connection []) (fixture_world\<lparr>stdout := [Line ''reply'']\<rparr>)
      = Ok (fixture_Connection [], fixture_world\<lparr>stdout := [Line ''reply'']\<rparr>)"
  using MessageDispatch_method_return
    [of "fixture_frame METHOD_RETURN 5 []"
        "(fixture_Connection [])\<lparr>methodCallReplies :=
            [5 \<mapsto> (\<lambda>r w. Ok (w\<lparr>stdout := stdout w @ [Line ''reply'']\<rparr>))]\<rparr>"
        fixture_world]
  by (simp add: fixture_frame_def fixture_Connection_def fixture_world_def MessageDispatch_def)

section \<open>The frame buffer\<close>

text \<open>
  C2. Whatever the buffer holds: when the codec returns a frame and reports \<open>n\<close> bytes
  consumed (a count within the buffer it was given), \<open>_PopMessage\<close> returns that frame
  and the buffer loses its first \<open>n\<close> bytes and nothing else; when the codec returns an
  error, as it does on an incomplete frame, no frame is returned and the Connection, its
  buffer included, is unchanged.
\<close>

theorem PopMessage_consumes_exactly:
  assumes "unmarshal (buffer p) = (msg, n, err)"
  shows "(err = None \<and> 0 \<le> n \<and> nat n \<le> length (buffer p) \<longrightarrow>
            (\<exists>rest. PopMessage unmarshal p = Ok ((msg, None), p\<lparr>buffer := rest\<rparr>)
                  \<and> buffer p = take (nat n) (buffer p) @ rest
                  \<and> length rest = length (buffer p) - nat n))
       \<and> (err \<noteq> None \<longrightarrow> PopMessage unmarshal p = Ok ((None, err), p))"
  using assms by (auto simp add: PopMessage_def)

theorem PopMessage_consumes_exactly_witness:
  "fixture_Unmarshal ''R1-E2-'' = (Some (fixture_frame METHOD_RETURN 49 []), 3, None)
   \<and> PopMessage fixture_Unmarshal ((fixture_Connection [])\<lparr>buffer := ''R1-E2-''\<rparr>)
       = Ok ((Some (fixture_frame METHOD_RETURN 49 []), None),
             (fixture_Connection [])\<lparr>buffer := ''E2-''\<rparr>)
   \<and> fixture_Unmarshal ''R1'' = (None, 0, Some ''incomplete frame'')
   \<and> PopMessage fixture_Unmarshal ((fixture_Connection [])\<lparr>buffer := ''R1''\<rparr>)
       = Ok ((None, Some ''incomplete frame''), (fixture_Connection [])\<lparr>buffer := ''R1''\<rparr>)"
  using PopMessage_consumes_exactly
    [of fixture_Unmarshal "(fixture_Connection [])\<lparr>buffer := ''R1-E2-''\<rparr>"
        "Some (fixture_frame METHOD_RETURN 49 [])" 3 None]
  by (simp add: fixture_Unmarshal_def fixture_params_def fixture_Connection_def PopMessage_def)

section \<open>The handshake response\<close>

text \<open>
  The buffer the response is read into is padded with NUL bytes up to 1000; the padding
  never takes part in a match, so the regular expression can be read on the bytes
  received alone, where it says what \<open>OK_guid_response\<close> says.
\<close>

lemma not_is_hex_NUL: "\<not> is_hex NUL"
  by (simp add: is_hex_def NUL_def)

lemma takeWhile_is_hex_padded:
  "takeWhile is_hex (xs @ replicate k NUL) = takeWhile is_hex xs"
  by (induction xs) (auto simp add: not_is_hex_NUL)

lemma take3_padded:
  "take 3 (r @ replicate k NUL) = ''OK '' \<longleftrightarrow> take 3 r = ''OK ''"
proof (cases "3 \<le> length r")
  case True
  then show ?thesis by simp
next
  case False
  then have "length r < 3" by simp
  then consider "r = []" | a where "r = [a]" | a b where "r = [a, b]"
    by (cases r; cases "tl r"; cases "tl (tl r)") auto
  then show ?thesis
    by cases (cases k; cases "k - 1"; cases "k - 2"; auto simp add: NUL_def)+
qed

lemma take3_OK_length: "take 3 r = ''OK '' \<Longrightarrow> 3 \<le> length r"
  by (cases r; cases "tl r"; cases "tl (tl r)") auto

lemma ExecuteString_OK_padded:
  "ExecuteString_OK (r @ replicate k NUL) \<noteq> [] \<longleftrightarrow>
     take 3 r = ''OK '' \<and> takeWhile is_hex (drop 3 r) \<noteq> []"
proof (cases "take 3 r = ''OK ''")
  case True
  then have "3 \<le> length r" by (rule take3_OK_length)
  then have "drop 3 (r @ replicate k NUL) = drop 3 r @ replicate k NUL" by simp
  with True show ?thesis
    by (simp add: ExecuteString_OK_def take3_padded takeWhile_is_hex_padded del: drop_append)
next
  case False
  then have "take 3 (r @ replicate k NUL) \<noteq> ''OK ''"
    by (simp only: take3_padded not_False_eq_True)
  with False show ?thesis
    by (simp add: ExecuteString_OK_def del: take_append)
qed

lemma ExecuteString_OK_group:
  assumes "ExecuteString_OK s \<noteq> []"
  shows "take (ExecuteString_OK s ! 3 - ExecuteString_OK s ! 2)
              (drop (ExecuteString_OK s ! 2) s) = takeWhile is_hex (drop 3 s)"
proof -
  have "ExecuteString_OK s =
          [0, 3 + length (takeWhile is_hex (drop 3 s)), 3, 3 + length (takeWhile is_hex (drop 3 s))]"
    using assms by (simp add: ExecuteString_OK_def split: if_splits)
  then show ?thesis
    by (simp add: takeWhile_eq_take [symmetric])
qed

lemma group_padded:
  assumes "take 3 r = ''OK ''"
  shows "takeWhile is_hex (drop 3 (r @ replicate k NUL)) = takeWhile is_hex (drop 3 r)"
proof -
  have "3 \<le> length r" using assms by (rule take3_OK_length)
  then have "drop 3 (r @ replicate k NUL) = drop 3 r @ replicate k NUL" by simp
  then show ?thesis by (simp add: takeWhile_is_hex_padded del: drop_append)
qed

lemma OK_guid_response_iff:
  "OK_guid_response r g \<longleftrightarrow>
     take 3 r = ''OK '' \<and> g = takeWhile is_hex (drop 3 r) \<and> g \<noteq> []"
proof
  assume "OK_guid_response r g"
  then obtain t where g: "g \<noteq> []" "\<forall>c \<in> set g. is_hex c"
    and r: "r = ''OK '' @ g @ t" and t: "t = [] \<or> \<not> is_hex (hd t)"
    by (auto simp add: OK_guid_response_def)
  have "takeWhile is_hex (g @ t) = g"
    using g t by (cases t) auto
  with r g show "take 3 r = ''OK '' \<and> g = takeWhile is_hex (drop 3 r) \<and> g \<noteq> []"
    by simp
next
  assume a: "take 3 r = ''OK '' \<and> g = takeWhile is_hex (drop 3 r) \<and> g \<noteq> []"
  let ?t = "dropWhile is_hex (drop 3 r)"
  have "r = take 3 r @ drop 3 r" by simp
  also have "\<dots> = ''OK '' @ g @ ?t" using a by simp
  finally have r: "r = ''OK '' @ g @ ?t" .
  have "?t = [] \<or> \<not> is_hex (hd ?t)"
    using hd_dropWhile [of is_hex "drop 3 r"] by blast
  moreover have "\<forall>c \<in> set g. is_hex c"
    using a by (auto dest: set_takeWhileD)
  ultimately show "OK_guid_response r g"
    unfolding OK_guid_response_def using a r by blast
qed

lemma conn_Read_Some:
  assumes "conn_Read s cap = Some (c, r, e)"
  shows "outbox c = outbox s \<and> wr_error c = wr_error s \<and> length r \<le> cap"
  using assms by (auto simp add: conn_Read_def split: list.splits read_event.splits)

lemma conn_Read_after_Write:
  assumes "conn_Read s cap = Some (c, r, e)"
  shows "conn_Read (fst (conn_Write s b)) cap = Some (fst (conn_Write c b), r, e)"
  using assms
  by (auto simp add: conn_Read_def conn_Write_def split: list.splits read_event.splits option.splits)

lemma Auth_after_read:
  assumes "conn_Read (conn p) 1000 = Some (c, r, e)"
  shows "Auth uid p =
     (if take 3 r = ''OK '' \<and> takeWhile is_hex (drop 3 r) \<noteq> []
      then Some (None, p\<lparr>guid := takeWhile is_hex (drop 3 r),
                          conn := fst (conn_Write (fst (conn_Write (fst (conn_Write c [NUL]))
                                     (AUTH_EXTERNAL uid))) (''BEGIN'' @ CRLF))\<rparr>)
      else Some (os_NewError ''Auth Failed'',
                 p\<lparr>conn := fst (conn_Write (fst (conn_Write c [NUL])) (AUTH_EXTERNAL uid))\<rparr>))"
proof -
  let ?c2 = "fst (conn_Write (fst (conn_Write (conn p) [NUL])) (AUTH_EXTERNAL uid))"
  let ?c3 = "fst (conn_Write (fst (conn_Write c [NUL])) (AUTH_EXTERNAL uid))"
  let ?retstr = "r @ replicate (1000 - length r) NUL"
  have rd: "conn_Read ?c2 1000 = Some (?c3, r, e)"
    using assms by (simp add: conn_Read_after_Write)
  show ?thesis
  proof (cases "take 3 r = ''OK '' \<and> takeWhile is_hex (drop 3 r) \<noteq> []")
    case True
    then have m: "ExecuteString_OK ?retstr \<noteq> []"
      by (simp add: ExecuteString_OK_padded)
    have "take (ExecuteString_OK ?retstr ! 3 - ExecuteString_OK ?retstr ! 2)
               (drop (ExecuteString_OK ?retstr ! 2) ?retstr) = takeWhile is_hex (drop 3 r)"
      using ExecuteString_OK_group [OF m] True by (simp only: group_padded)
    with m True rd show ?thesis
      by (simp add: Auth_def Let_def)
  next
    case False
    then have "ExecuteString_OK ?retstr = []"
      using ExecuteString_OK_padded [of r "1000 - length r"] by blast
    with False rd show ?thesis
      by (auto simp add: Auth_def Let_def)
  qed
qed

text \<open>
  C4. Let \<open>r\<close> be the bytes the read of the response delivers. When \<open>r\<close> does not
  match \<open>OK <hex-guid>\<close>, \<open>_Auth\<close> returns the error \<open>Auth Failed\<close>, the guid is
  left alone, and the only writes are the NUL byte and the \<open>AUTH EXTERNAL\<close> line:
  \<open>BEGIN\<close> is not among them. When \<open>r\<close> matches with guid \<open>g\<close>, \<open>_Auth\<close> returns
  \<open>nil\<close>, the guid stored is \<open>g\<close>, and \<open>BEGIN\<close> is the write that follows the other
  two (on a transport whose writes fail, none of the three goes out).
\<close>

theorem Auth_BEGIN_only_after_OK:
  assumes "conn_Read (conn p) 1000 = Some (c, r, e)"
  shows "(\<forall>g. OK_guid_response r g \<longrightarrow>
            (\<exists>p'. Auth uid p = Some (None, p') \<and> guid p' = g
               \<and> outbox (conn p') = outbox (conn p) @
                    (if wr_error (conn p) = None
                     then [[NUL], AUTH_EXTERNAL uid, ''BEGIN'' @ CRLF] else [])))
       \<and> ((\<forall>g. \<not> OK_guid_response r g) \<longrightarrow>
            (\<exists>p'. Auth uid p = Some (os_NewError ''Auth Failed'', p') \<and> guid p' = guid p
               \<and> outbox (conn p') = outbox (conn p) @
                    (if wr_error (conn p) = None then [[NUL], AUTH_EXTERNAL uid] else [])
               \<and> ''BEGIN'' @ CRLF \<notin> set (drop (length (outbox (conn p))) (outbox (conn p')))))"
proof -
  have c: "outbox c = outbox (conn p)" "wr_error c = wr_error (conn p)"
    using conn_Read_Some [OF assms] by simp_all
  have ne: "''BEGIN'' @ CRLF \<noteq> [NUL]" "''BEGIN'' @ CRLF \<noteq> AUTH_EXTERNAL uid"
    by (simp_all add: CRLF_def NUL_def AUTH_EXTERNAL_def)
  show ?thesis
    using c ne
    by (auto simp add: Auth_after_read [OF assms] OK_guid_response_iff conn_Write_def
             split: option.splits)
qed

theorem Auth_BEGIN_only_after_OK_witness:
  "conn_Read (conn (fixture_Connection [Data (''REJECTED'' @ CRLF)])) 1000 =
     Some (conn (fixture_Connection []), ''REJECTED'' @ CRLF, None)
   \<and> (\<forall>g. \<not> OK_guid_response (''REJECTED'' @ CRLF) g)
   \<and> map_option (\<lambda>(e, p'). (e, guid p', outbox (conn p')))
        (Auth 1000 (fixture_Connection [Data (''REJECTED'' @ CRLF)])) =
       Some (os_NewError ''Auth Failed'', [], [[NUL], AUTH_EXTERNAL 1000])
   \<and> conn_Read (conn (fixture_Connection [Data (''OK 1234'' @ CRLF)])) 1000 =
       Some (conn (fixture_Connection []), ''OK 1234'' @ CRLF, None)
   \<and> OK_guid_response (''OK 1234'' @ CRLF) ''1234''
   \<and> map_option (\<lambda>(e, p'). (e, guid p', outbox (conn p')))
        (Auth 1000 (fixture_Connection [Data (''OK 1234'' @ CRLF)])) =
       Some (None, ''1234'', [[NUL], AUTH_EXTERNAL 1000, ''BEGIN'' @ CRLF])"
proof -
  have r1: "conn_Read (conn (fixture_Connection [Data (''REJECTED'' @ CRLF)])) 1000 =
     Some (conn (fixture_Connection []), ''REJECTED'' @ CRLF, None)"
    by (simp add: conn_Read_def fixture_Connection_def CRLF_def)
  have r2: "conn_Read (conn (fixture_Connection [Data (''OK 1234'' @ CRLF)])) 1000 =
       Some (conn (fixture_Connection []), ''OK 1234'' @ CRLF, None)"
    by (simp add: conn_Read_def fixture_Connection_def CRLF_def)
  have n1: "\<forall>g. \<not> OK_guid_response (''REJECTED'' @ CRLF) g"
    by (simp add: OK_guid_response_iff)
  have n2: "OK_guid_response (''OK 1234'' @ CRLF) ''1234''"
    by (simp add: OK_guid_response_iff CRLF_def is_hex_def)
  show ?thesis
    using Auth_BEGIN_only_after_OK [OF r1, of 1000] Auth_BEGIN_only_after_OK [OF r2, of 1000]
      r1 r2 n1 n2
    by (auto simp add: fixture_Connection_def)
qed

text \<open>
  A response line split over two reads: \<open>_Auth\<close> reads once, so the guid of
  \<open>OK 1234\<close> comes out as \<open>12\<close> when the line is cut after \<open>OK 12\<close>, and the
  handshake fails when it is cut after \<open>O\<close>.
\<close>

theorem Auth_split_response_counterexample:
  "map_option (\<lambda>(e, p'). (e, guid p'))
     (Auth 1000 (fixture_Connection [Data (''OK 1234'' @ CRLF)])) = Some (None, ''1234'')
   \<and> map_option (\<lambda>(e, p'). (e, guid p'))
     (Auth 1000 (fixture_Connection [Data ''OK 12'', Data (''34'' @ CRLF)])) = Some (None, ''12'')
   \<and> map_option (\<lambda>(e, p'). (e, guid p'))
     (Auth 1000 (fixture_Connection [Data ''O'', Data (''K 1234'' @ CRLF)])) =
       Some (os_NewError ''Auth Failed'', [])"
  by (simp add: Auth_def fixture_Connection_def conn_Write_def conn_Read_def CRLF_def NUL_def
        ExecuteString_OK_def os_NewError_def is_hex_def Let_def)

text \<open>
  C5, as the code has it. The response is what a single read of at most 1000 bytes
  delivers, and no second read is made: with \<open>r\<close> the bytes of that read and \<open>c\<close> the
  transport right after it, \<open>_Auth\<close> succeeds and stores \<open>g\<close> when \<open>r\<close> itself matches
  \<open>OK <hex-guid>\<close> with guid \<open>g\<close>, fails when \<open>r\<close> itself does not match, and in both
  cases leaves every later read of the transport where it was.
\<close>

theorem Auth_single_read:
  assumes "conn_Read (conn p) 1000 = Some (c, r, e)"
  shows "(\<forall>g. OK_guid_response r g \<longrightarrow>
            (\<exists>p'. Auth uid p = Some (None, p') \<and> guid p' = g \<and> inbox (conn p') = inbox c))
       \<and> ((\<forall>g. \<not> OK_guid_response r g) \<longrightarrow>
            (\<exists>p'. Auth uid p = Some (os_NewError ''Auth Failed'', p')
               \<and> guid p' = guid p \<and> inbox (conn p') = inbox c))"
  by (auto simp add: Auth_after_read [OF assms] OK_guid_response_iff conn_Write_def
           split: option.splits)

theorem Auth_single_read_witness:
  "conn_Read (conn (fixture_Connection [Data ''OK 12'', Data (''34'' @ CRLF)])) 1000 =
     Some (conn (fixture_Connection [Data (''34'' @ CRLF)]), ''OK 12'', None)
   \<and> OK_guid_response ''OK 12'' ''12''
   \<and> map_option (\<lambda>(e, p'). (e, guid p', inbox (conn p')))
        (Auth 1000 (fixture_Connection [Data ''OK 12'', Data (''34'' @ CRLF)])) =
       Some (None, ''12'', [Data (''34'' @ CRLF)])"
proof -
  have r: "conn_Read (conn (fixture_Connection [Data ''OK 12'', Data (''34'' @ CRLF)])) 1000 =
     Some (conn (fixture_Connection [Data (''34'' @ CRLF)]), ''OK 12'', None)"
    by (simp add: conn_Read_def fixture_Connection_def)
  have m: "OK_guid_response ''OK 12'' ''12''"
    by (simp add: OK_guid_response_iff is_hex_def)
  show ?thesis
    using Auth_single_read [OF r, of 1000] r m
    by (auto simp add: fixture_Connection_def)
qed

section \<open>Initialize and a rejected handshake\<close>

text \<open>
  C3. The peer answers the \<open>AUTH\<close> line with \<open>REJECTED EXTERNAL\<close>: \<open>_Auth\<close> returns
  the error \<open>Auth Failed\<close>. \<open>Initialize\<close> on the same input does not return it: when the
  peer sends nothing more, \<open>Initialize\<close> never returns (it waits for the reply to
  \<open>Hello\<close>), and when a reply to \<open>Hello\<close> follows, it returns \<open>nil\<close>.
\<close>

theorem Initialize_after_rejected_Auth:
  "map_option fst (Auth 1000 (fixture_Connection [Data (''REJECTED EXTERNAL'' @ CRLF)])) =
     Some (os_NewError ''Auth Failed'')
   \<and> Initialize fixture_externals 1000
        (fixture_Connection [Data (''REJECTED EXTERNAL'' @ CRLF)]) fixture_world = None
   \<and> map_option (map_result fst)
        (Initialize fixture_externals 1000
           (fixture_Connection [Data (''REJECTED EXTERNAL'' @ CRLF), Data [CHR ''R'', CHR 0x01, CHR ''-'']])
           fixture_world) = Some (Ok None)"
  by (simp add: Initialize_def Auth_def fixture_Connection_def conn_Write_def conn_Read_def
        CRLF_def NUL_def ExecuteString_OK_def os_NewError_def SendHello_def NewMessage_def
        fixture_world_def SendSync_def seri_of_def fixture_externals_def RunLoop_until.simps
        MessageReceiver_iteration_def PopMessage_def UpdateBuffer_def fixture_Unmarshal_def
        MessageDispatch_def signalling_def fixture_frame_def fixture_params_def Let_def)

section \<open>Malformed frames\<close>

text \<open>
  A buffer the codec calls malformed: the receiver does not report anything, it reads
  from the transport and goes on; with a peer that then stays silent the loops wait for
  ever, the malformed bytes still at the front of the buffer.
\<close>

theorem malformed_frame_counterexample:
  "fixture_Unmarshal ''?!!'' = (None, 0, Some ''malformed frame'')
   \<and> MessageReceiver_iteration fixture_Unmarshal
        ((fixture_Connection [Data ''R'']) \<lparr>buffer := ''?!!''\<rparr>) =
       Some (Ok (Refilled, (fixture_Connection []) \<lparr>buffer := ''?!!R''\<rparr>))
   \<and> RunLoop_until fixture_Unmarshal 0
        ((fixture_Connection [Data ''R'']) \<lparr>buffer := ''?!!''\<rparr>) fixture_world = None"
  by (simp add: fixture_Unmarshal_def MessageReceiver_iteration_def PopMessage_def
        UpdateBuffer_def conn_Read_def fixture_Connection_def RunLoop_until.simps
        fixture_world_def)

text \<open>
  C6, as the code has it. Whatever error the codec returns, malformed and incomplete
  alike, \<open>_PopMessage\<close> returns that error to its caller and leaves the Connection as it
  was; its caller \<open>_MessageReceiver\<close> then makes one read from the transport, appends
  the bytes to the buffer and tries again, handing nothing over.
\<close>

theorem MessageReceiver_retries_on_any_error:
  assumes "unmarshal (buffer p) = (msg, n, Some e)"
  shows "PopMessage unmarshal p = Ok ((None, Some e), p)
       \<and> MessageReceiver_iteration unmarshal p =
           (case UpdateBuffer p of
              None \<Rightarrow> None
            | Some (e', p') \<Rightarrow> Some (Ok (Refilled, p')))
       \<and> (\<forall>c d. conn_Read (conn p) 4096 = Some (c, d, None) \<longrightarrow>
            MessageReceiver_iteration unmarshal p =
              Some (Ok (Refilled, p\<lparr>conn := c, buffer := buffer p @ d\<rparr>)))"
  using assms
  by (auto simp add: PopMessage_def MessageReceiver_iteration_def UpdateBuffer_def
           split: option.splits)

theorem MessageReceiver_retries_on_any_error_witness:
  "fixture_Unmarshal (buffer ((fixture_Connection [Data ''R'']) \<lparr>buffer := ''?!!''\<rparr>)) =
     (None, 0, Some ''malformed frame'')
   \<and> conn_Read (conn ((fixture_Connection [Data ''R'']) \<lparr>buffer := ''?!!''\<rparr>)) 4096 =
       Some (conn (fixture_Connection []), ''R'', None)
   \<and> PopMessage fixture_Unmarshal ((fixture_Connection [Data ''R'']) \<lparr>buffer := ''?!!''\<rparr>) =
       Ok ((None, Some ''malformed frame''), (fixture_Connection [Data ''R'']) \<lparr>buffer := ''?!!''\<rparr>)
   \<and> MessageReceiver_iteration fixture_Unmarshal
        ((fixture_Connection [Data ''R'']) \<lparr>buffer := ''?!!''\<rparr>) =
       Some (Ok (Refilled, (fixture_Connection []) \<lparr>buffer := ''?!!R''\<rparr>))"
proof -
  have u: "fixture_Unmarshal (buffer ((fixture_Connection [Data ''R'']) \<lparr>buffer := ''?!!''\<rparr>)) =
     (None, 0, Some ''malformed frame'')"
    by (simp add: fixture_Unmarshal_def)
  have r: "conn_Read (conn ((fixture_Connection [Data ''R'']) \<lparr>buffer := ''?!!''\<rparr>)) 4096 =
       Some (conn (fixture_Connection []), ''R'', None)"
    by (simp add: conn_Read_def fixture_Connection_def)
  show ?thesis
    using MessageReceiver_retries_on_any_error
      [of fixture_Unmarshal "(fixture_Connection [Data ''R'']) \<lparr>buffer := ''?!!''\<rparr>"
          None 0 "''malformed frame''"] u r
    by (simp add: fixture_Connection_def UpdateBuffer_def)
qed

section \<open>Serials\<close>

text \<open>
  Each caller of \<open>_SendSync\<close> is its send part followed by the wait for the channel.
\<close>

lemma SendSync_as_send_then_wait:
  "SendSync X msg callback p w =
     (case SendSync_send X msg callback p w of
        (ch, p1, w1) \<Rightarrow>
          (case RunLoop_until (Unmarshal X) ch p1 w1 of
             None \<Rightarrow> None
           | Some Panic \<Rightarrow> Some Panic
           | Some (Ok (p', w')) \<Rightarrow> Some (Ok (None, p', w'))))"
  by (simp add: SendSync_def SendSync_send_def Let_def)

lemma SendHello_as_issue:
  "SendHello X p w =
     (case issue X Call_Hello p w of
        None \<Rightarrow> None
      | Some (msg, ch, p1, w1) \<Rightarrow>
          (case RunLoop_until (Unmarshal X) ch p1 w1 of
             None \<Rightarrow> None
           | Some Panic \<Rightarrow> Some Panic
           | Some (Ok (p', w')) \<Rightarrow> Some (Ok (None, p', w'))))"
  by (simp add: SendHello_def issue_def SendSync_as_send_then_wait Let_def split_beta
           split: option.splits result.splits)

lemma GetIntrospect_as_issue:
  "GetIntrospect X dest pth p w =
     (case issue X (Call_Introspect dest pth) p w of
        None \<Rightarrow> None
      | Some (msg, ch, p1, w1) \<Rightarrow>
          (case RunLoop_until (Unmarshal X) ch p1 w1 of
             None \<Rightarrow> None
           | Some Panic \<Rightarrow> Some Panic
           | Some (Ok (p', w')) \<Rightarrow>
               Some (Ok (intro_var w' (next_var (snd (NewMessage w))), p', w'))))"
  by (simp add: GetIntrospect_def issue_def SendSync_as_send_then_wait Let_def split_beta
           split: option.splits result.splits)

lemma CallMethod_as_issue:
  assumes "intf_intro intf = Some d" and "GetMethodData d name = Some method"
  shows "CallMethod X intf name args p w =
     (case issue X (Call_Method intf name args) p w of
        None \<Rightarrow> None
      | Some (msg, ch, p1, w1) \<Rightarrow>
          (case RunLoop_until (Unmarshal X) ch p1 w1 of
             None \<Rightarrow> None
           | Some Panic \<Rightarrow> Some Panic
           | Some (Ok (p', w')) \<Rightarrow> Some (Ok (None, p', w'))))"
  using assms
  by (simp add: CallMethod_def issue_def SendSync_as_send_then_wait Let_def split_beta
           split: option.splits result.splits)

text \<open>
  Two serials less than \<open>2^32\<close> apart differ in their low 32 bits.
\<close>

lemma uint32_window_inj:
  fixes c :: int
  assumes "i < 2 ^ 32" "j < 2 ^ 32"
    and "(word_of_int (c + int i) :: 32 word) = word_of_int (c + int j)"
  shows "i = j"
proof -
  have "(c + int i) mod 2 ^ 32 = (c + int j) mod 2 ^ 32"
    using assms(3) [unfolded word_of_int_eq_iff] by (simp add: take_bit_eq_mod)
  then have "(2 ^ 32 :: int) dvd (c + int i) - (c + int j)"
    by (simp add: mod_eq_dvd_iff)
  then have d: "(2 ^ 32 :: int) dvd int i - int j" by simp
  have "\<bar>int i - int j\<bar> < 2 ^ 32" using assms(1,2) by auto
  with d have "int i - int j = 0"
    using zdvd_not_zless [of "\<bar>int i - int j\<bar>" "2 ^ 32"] by (cases "int i - int j = 0") auto
  then show ?thesis by simp
qed

text \<open>
  The reply map along a history: every send part registers under the serial it took
  from the counter, and neither a send part nor a dispatched frame breaks
  \<open>registered_since\<close>.
\<close>

lemma counter_kept_signalling:
  assumes "counter_kept f"
  shows "counter_kept (signalling f ch)"
  using assms
  by (auto simp add: counter_kept_def signalling_def split: result.splits)

lemma counter_kept_introspect_reply: "counter_kept (introspect_reply parse a)"
  by (auto simp add: counter_kept_def introspect_reply_def split_beta
           split: list.splits dbus_value.splits if_splits)

lemma issue_registers:
  assumes "issue X c p w = Some (msg, ch, p', w')"
  shows "serial msg = next_serial w \<and> next_serial w' = next_serial w + 1
       \<and> (\<exists>f. methodCallReplies p' (word_of_int (next_serial w)) = Some f \<and> counter_kept f)
       \<and> (\<forall>k. k \<noteq> word_of_int (next_serial w) \<longrightarrow>
              methodCallReplies p' k = methodCallReplies p k)"
  using assms
  by (cases c)
     (auto simp add: issue_def SendSync_send_def NewMessage_def seri_of_def Let_def
           counter_kept_def signalling_def introspect_reply_def split_beta
           split: option.splits result.splits list.splits dbus_value.splits if_splits)

lemma issue_keeps_registered_since:
  assumes "registered_since s0 p w" and "issue X c p w = Some (msg, ch, p', w')"
  shows "registered_since s0 p' w'"
proof -
  note r = issue_registers [OF assms(2)]
  show ?thesis
    unfolding registered_since_def
  proof (intro conjI allI impI)
    show "s0 \<le> next_serial w'" using assms(1) r by (simp add: registered_since_def)
  next
    fix k f assume kf: "methodCallReplies p' k = Some f"
    show "counter_kept f"
    proof (cases "k = word_of_int (next_serial w)")
      case True with kf r show ?thesis by auto
    next
      case False
      with kf r have "methodCallReplies p k = Some f" by simp
      with assms(1) show ?thesis by (simp add: registered_since_def)
    qed
    show "\<exists>s. s0 \<le> s \<and> s < next_serial w' \<and> k = word_of_int s"
    proof (cases "k = word_of_int (next_serial w)")
      case True
      with assms(1) r show ?thesis
        by (intro exI [of _ "next_serial w"]) (simp add: registered_since_def)
    next
      case False
      with kf r have "methodCallReplies p k = Some f" by simp
      with assms(1) obtain s where "s0 \<le> s" "s < next_serial w" "k = word_of_int s"
        by (auto simp add: registered_since_def)
      with r show ?thesis by (intro exI [of _ s]) simp
    qed
  qed
qed

lemma MessageDispatch_keeps_registered_since:
  assumes "registered_since s0 p w" and "MessageDispatch (Some m) p w = Ok (p', w')"
  shows "registered_since s0 p' w'"
  using assms
  by (auto simp add: MessageDispatch_def registered_since_def counter_kept_def Let_def
           split: MessageType.splits option.splits result.splits if_splits)

lemma run_serials:
  assumes "registered_since s0 p w"
  shows "(\<forall>x \<in> set (run X es p w). next_serial w \<le> serial (fst x))
       \<and> distinct (map (\<lambda>x. serial (fst x)) (run X es p w))"
  using assms
proof (induction es arbitrary: p w)
  case Nil
  then show ?case by simp
next
  case (Cons ev es)
  show ?case
  proof (cases ev)
    case (Calls c)
    show ?thesis
    proof (cases "issue X c p w")
      case None
      with Calls Cons show ?thesis by simp
    next
      case (Some r)
      obtain msg ch p' w' where r: "r = (msg, ch, p', w')" by (cases r) auto
      note reg = issue_registers [OF Some [unfolded r]]
      have inv: "registered_since s0 p' w'"
        using Cons.prems Some r by (auto intro: issue_keeps_registered_since)
      have ih: "(\<forall>x \<in> set (run X es p' w'). next_serial w' \<le> serial (fst x))
              \<and> distinct (map (\<lambda>x. serial (fst x)) (run X es p' w'))"
        by (rule Cons.IH [OF inv])
      have "serial msg \<notin> (\<lambda>x. serial (fst x)) ` set (run X es p' w')"
        using ih reg by force
      with ih reg Calls Some r show ?thesis by force
    qed
  next
    case (Arrives m)
    show ?thesis
    proof (cases "MessageDispatch (Some m) p w")
      case Panic
      with Arrives show ?thesis by simp
    next
      case (Ok r)
      obtain p' w' where r: "r = (p', w')" by (cases r) auto
      have inv: "registered_since s0 p' w'"
        using Cons.prems Ok r by (auto intro: MessageDispatch_keeps_registered_since)
      have same: "next_serial w' = next_serial w"
        using Cons.prems Ok r
        by (auto simp add: MessageDispatch_def registered_since_def counter_kept_def Let_def
                 split: MessageType.splits option.splits result.splits if_splits)
      from Cons.IH [OF inv] same Arrives Ok r show ?thesis by simp
    qed
  qed
qed

lemma run_fresh:
  assumes "registered_since s0 p w"
    and "next_serial w - s0 + int (calls_in es) \<le> 2 ^ 32"
  shows "\<forall>x \<in> set (run X es p w). \<not> snd x"
  using assms
proof (induction es arbitrary: p w)
  case Nil
  then show ?case by simp
next
  case (Cons ev es)
  show ?case
  proof (cases ev)
    case (Calls c)
    show ?thesis
    proof (cases "issue X c p w")
      case None
      with Calls Cons show ?thesis by simp
    next
      case (Some r)
      obtain msg ch p' w' where r: "r = (msg, ch, p', w')" by (cases r) auto
      note reg = issue_registers [OF Some [unfolded r]]
      have inv: "registered_since s0 p' w'"
        using Cons.prems Some r by (auto intro: issue_keeps_registered_since)
      have bound: "next_serial w' - s0 + int (calls_in es) \<le> 2 ^ 32"
        using Cons.prems(2) reg Calls by simp
      have fresh: "methodCallReplies p (seri_of msg) = None"
      proof (rule ccontr)
        assume "methodCallReplies p (seri_of msg) \<noteq> None"
        then obtain f where "methodCallReplies p (word_of_int (next_serial w)) = Some f"
          using reg by (auto simp add: seri_of_def)
        with Cons.prems(1) obtain s where s: "s0 \<le> s" "s < next_serial w"
          and eq: "(word_of_int (next_serial w) :: 32 word) = word_of_int s"
          by (auto simp add: registered_since_def)
        have lt: "next_serial w - s0 < 2 ^ 32"
          using Cons.prems(2) Calls by simp
        have "nat (next_serial w - s0) = nat (s - s0)"
        proof (rule uint32_window_inj [of _ _ s0])
          show "nat (next_serial w - s0) < 2 ^ 32" using lt s by simp
          show "nat (s - s0) < 2 ^ 32" using lt s by simp
          show "(word_of_int (s0 + int (nat (next_serial w - s0))) :: 32 word) =
                  word_of_int (s0 + int (nat (s - s0)))"
            using eq s by simp
        qed
        with s show False by simp
      qed
      from Cons.IH [OF inv bound] fresh Calls Some r show ?thesis by simp
    qed
  next
    case (Arrives m)
    show ?thesis
    proof (cases "MessageDispatch (Some m) p w")
      case Panic
      with Arrives show ?thesis by simp
    next
      case (Ok r)
      obtain p' w' where r: "r = (p', w')" by (cases r) auto
      have inv: "registered_since s0 p' w'"
        using Cons.prems Ok r by (auto intro: MessageDispatch_keeps_registered_since)
      have same: "next_serial w' = next_serial w"
        using Cons.prems Ok r
        by (auto simp add: MessageDispatch_def registered_since_def counter_kept_def Let_def
                 split: MessageType.splits option.splits result.splits if_splits)
      have bound: "next_serial w' - s0 + int (calls_in es) \<le> 2 ^ 32"
        using Cons.prems(2) same Arrives by simp
      from Cons.IH [OF inv bound] Arrives Ok r show ?thesis by simp
    qed
  qed
qed

lemma registered_since_empty:
  assumes "methodCallReplies p = Map.empty"
  shows "registered_since (next_serial w) p w"
  using assms by (simp add: registered_since_def)

text \<open>
  C7. The calls sent through \<open>_SendSync\<close> are those of \<open>_SendHello\<close>,
  \<open>_GetIntrospect\<close> and \<open>CallMethod\<close>: each is its send part \<open>issue\<close> followed by
  the wait. The send part takes the serial of its message from the counter, advances the
  counter, and registers the callback under \<open>uint32(msg.serial)\<close>, leaving every other
  entry of the reply map as it was. On a Connection that starts with an empty reply map,
  as \<open>Initialize\<close> makes it, and over any history of calls and dispatched frames, the
  serials of the calls are pairwise distinct: the serial of a call differs from the
  serial of every call made before it, the outstanding ones among them. And in a history
  of at most \<open>2^32\<close> calls no call finds its key in the reply map when it registers.
\<close>

theorem calls_get_fresh_serials:
  "SendHello X p w =
     (case issue X Call_Hello p w of
        None \<Rightarrow> None
      | Some (msg, ch, p1, w1) \<Rightarrow>
          (case RunLoop_until (Unmarshal X) ch p1 w1 of
             None \<Rightarrow> None
           | Some Panic \<Rightarrow> Some Panic
           | Some (Ok (p', w')) \<Rightarrow> Some (Ok (None, p', w'))))
   \<and> GetIntrospect X dest pth p w =
     (case issue X (Call_Introspect dest pth) p w of
        None \<Rightarrow> None
      | Some (msg, ch, p1, w1) \<Rightarrow>
          (case RunLoop_until (Unmarshal X) ch p1 w1 of
             None \<Rightarrow> None
           | Some Panic \<Rightarrow> Some Panic
           | Some (Ok (p', w')) \<Rightarrow>
               Some (Ok (intro_var w' (next_var (snd (NewMessage w))), p', w'))))
   \<and> (\<forall>d method. intf_intro intf = Some d \<and> GetMethodData d name = Some method \<longrightarrow>
        CallMethod X intf name args p w =
          (case issue X (Call_Method intf name args) p w of
             None \<Rightarrow> None
           | Some (msg, ch, p1, w1) \<Rightarrow>
               (case RunLoop_until (Unmarshal X) ch p1 w1 of
                  None \<Rightarrow> None
                | Some Panic \<Rightarrow> Some Panic
                | Some (Ok (p', w')) \<Rightarrow> Some (Ok (None, p', w')))))
   \<and> (\<forall>c msg ch p1 w1. issue X c p w = Some (msg, ch, p1, w1) \<longrightarrow>
        serial msg = next_serial w \<and> next_serial w1 = next_serial w + 1
        \<and> methodCallReplies p1 (seri_of msg) \<noteq> None
        \<and> (\<forall>k. k \<noteq> seri_of msg \<longrightarrow> methodCallReplies p1 k = methodCallReplies p k))
   \<and> (methodCallReplies p = Map.empty \<longrightarrow>
        distinct (map (\<lambda>x. serial (fst x)) (run X es p w))
        \<and> (calls_in es \<le> 2 ^ 32 \<longrightarrow> (\<forall>x \<in> set (run X es p w). \<not> snd x)))"
proof (intro conjI allI impI)
  show "SendHello X p w =
     (case issue X Call_Hello p w of
        None \<Rightarrow> None
      | Some (msg, ch, p1, w1) \<Rightarrow>
          (case RunLoop_until (Unmarshal X) ch p1 w1 of
             None \<Rightarrow> None
           | Some Panic \<Rightarrow> Some Panic
           | Some (Ok (p', w')) \<Rightarrow> Some (Ok (None, p', w'))))"
    by (rule SendHello_as_issue)
next
  show "GetIntrospect X dest pth p w =
     (case issue X (Call_Introspect dest pth) p w of
        None \<Rightarrow> None
      | Some (msg, ch, p1, w1) \<Rightarrow>
          (case RunLoop_until (Unmarshal X) ch p1 w1 of
             None \<Rightarrow> None
           | Some Panic \<Rightarrow> Some Panic
           | Some (Ok (p', w')) \<Rightarrow>
               Some (Ok (intro_var w' (next_var (snd (NewMessage w))), p', w'))))"
    by (rule GetIntrospect_as_issue)
next
  fix d meth
  assume "intf_intro intf = Some d \<and> GetMethodData d name = Some meth"
  then show "CallMethod X intf name args p w =
          (case issue X (Call_Method intf name args) p w of
             None \<Rightarrow> None
           | Some (msg, ch, p1, w1) \<Rightarrow>
               (case RunLoop_until (Unmarshal X) ch p1 w1 of
                  None \<Rightarrow> None
                | Some Panic \<Rightarrow> Some Panic
                | Some (Ok (p', w')) \<Rightarrow> Some (Ok (None, p', w'))))"
    by (auto intro: CallMethod_as_issue)
next
  fix c msg ch p1 w1
  assume i: "issue X c p w = Some (msg, ch, p1, w1)"
  note r = issue_registers [OF i]
  show "serial msg = next_serial w" using r by simp
  show "next_serial w1 = next_serial w + 1" using r by simp
  show "methodCallReplies p1 (seri_of msg) \<noteq> None" using r by (auto simp add: seri_of_def)
  fix k assume "k \<noteq> seri_of msg"
  then show "methodCallReplies p1 k = methodCallReplies p k"
    using r by (simp add: seri_of_def)
next
  assume "methodCallReplies p = Map.empty"
  then show "distinct (map (\<lambda>x. serial (fst x)) (run X es p w))"
    using run_serials [OF registered_since_empty] by blast
next
  assume e: "methodCallReplies p = Map.empty" and n: "calls_in es \<le> 2 ^ 32"
  have "next_serial w - next_serial w + int (calls_in es) \<le> 2 ^ 32"
    using n by simp
  from run_fresh [OF registered_since_empty [OF e] this]
  show "\<forall>x \<in> set (run X es p w). \<not> snd x" .
qed

theorem calls_get_fresh_serials_witness:
  "intf_intro fixture_Interface = Some fixture_Echo
   \<and> GetMethodData fixture_Echo ''Ping'' = Some fixture_Ping
   \<and> map_option (\<lambda>(msg, ch, p1, w1).
          (serial msg, next_serial w1, methodCallReplies p1 (seri_of msg) \<noteq> None))
        (issue fixture_externals (Call_Method fixture_Interface ''Ping'' [Some (VString ''hi'')])
           (fixture_Connection []) fixture_world) = Some (1, 2, True)
   \<and> methodCallReplies (fixture_Connection []) = Map.empty
   \<and> calls_in [Calls Call_Hello,
                 Calls (Call_Method fixture_Interface ''Ping'' [Some (VString ''hi'')]),
                 Arrives (fixture_frame METHOD_RETURN 2 []),
                 Calls (Call_Introspect ''com.example.Echo'' ''/com/example/Echo''),
                 Arrives (fixture_frame METHOD_RETURN 1 [])] \<le> 2 ^ 32
   \<and> map (\<lambda>x. (serial (fst x), seri_of (fst x), snd x))
        (run fixture_externals
           [Calls Call_Hello,
            Calls (Call_Method fixture_Interface ''Ping'' [Some (VString ''hi'')]),
            Arrives (fixture_frame METHOD_RETURN 2 []),
            Calls (Call_Introspect ''com.example.Echo'' ''/com/example/Echo''),
            Arrives (fixture_frame METHOD_RETURN 1 [])]
           (fixture_Connection []) fixture_world) =
       [(1, 1, False), (2, 2, False), (3, 3, False)]"
  using calls_get_fresh_serials
    [of fixture_externals "fixture_Connection []" fixture_world "''com.example.Echo''"
        "''/com/example/Echo''" fixture_Interface "''Ping''" "[Some (VString ''hi'')]"
        "[Calls Call_Hello,
          Calls (Call_Method fixture_Interface ''Ping'' [Some (VString ''hi'')]),
          Arrives (fixture_frame METHOD_RETURN 2 []),
          Calls (Call_Introspect ''com.example.Echo'' ''/com/example/Echo''),
          Arrives (fixture_frame METHOD_RETURN 1 [])]"]
  by (simp add: issue_def SendSync_send_def NewMessage_def seri_of_def Let_def
        fixture_Interface_def fixture_Echo_def fixture_Object_def fixture_externals_def
        fixture_Connection_def fixture_world_def fixture_frame_def conn_Write_def
        MessageDispatch_def signalling_def)

section \<open>A call whose reply arrives with the next read\<close>

text \<open>
  The caller of \<open>_SendSync\<close> is released as follows when nothing complete is buffered and
  the next read completes a method return carrying the serial of the call: the receiver
  reads, pops the frame, the dispatcher runs the registered function, which runs the
  callback and sends on the channel, and deletes the entry.
\<close>

lemma RunLoop_until_reply_in_next_read:
  assumes fresh: "ch \<notin> set (sent_on w)"
    and none_yet: "unmarshal (buffer p) = (mx, nx, Some ex)"
    and rd: "conn_Read (conn p) 4096 = Some (c, bs, e)"
    and frame: "unmarshal (buffer p @ bs) = (Some r, n, None)" "0 \<le> n"
    and reply: "Type r = METHOD_RETURN"
    and reg: "methodCallReplies p (replySerial r) = Some (signalling callback ch)"
    and cb: "callback r w = Ok w'"
  shows "RunLoop_until unmarshal ch p w =
           Some (Ok (p\<lparr>conn := c, buffer := drop (nat n) (buffer p @ bs),
                       methodCallReplies := (methodCallReplies p)(replySerial r := None)\<rparr>,
                     w'\<lparr>sent_on := remove1 ch (sent_on w' @ [ch])\<rparr>))"
proof -
  let ?p1 = "p\<lparr>conn := c, buffer := buffer p @ bs\<rparr>"
  let ?p2 = "?p1\<lparr>buffer := drop (nat n) (buffer p @ bs)\<rparr>"
  let ?p3 = "?p2\<lparr>methodCallReplies := (methodCallReplies p)(replySerial r := None)\<rparr>"
  let ?w3 = "w'\<lparr>sent_on := sent_on w' @ [ch]\<rparr>"
  have it1: "MessageReceiver_iteration unmarshal p = Some (Ok (Refilled, ?p1))"
    using none_yet rd by (simp add: MessageReceiver_iteration_def PopMessage_def UpdateBuffer_def)
  have it2: "MessageReceiver_iteration unmarshal ?p1 = Some (Ok (Delivered (Some r), ?p2))"
    using frame by (simp add: MessageReceiver_iteration_def PopMessage_def)
  have d: "MessageDispatch (Some r) ?p2 w = Ok (?p3, ?w3)"
    using reply reg cb by (simp add: MessageDispatch_def signalling_def)
  have "RunLoop_until unmarshal ch p w = RunLoop_until unmarshal ch ?p1 w"
    using fresh it1 by (subst RunLoop_until.simps) simp
  also have "\<dots> = RunLoop_until unmarshal ch ?p3 ?w3"
    using fresh it2 d by (subst RunLoop_until.simps) simp
  also have "\<dots> = Some (Ok (?p3, ?w3\<lparr>sent_on := remove1 ch (sent_on ?w3)\<rparr>))"
    by (subst RunLoop_until.simps) simp
  finally show ?thesis by simp
qed

lemma SendSync_reply_in_next_read:
  assumes fresh: "next_chan w \<notin> set (sent_on w)"
    and none_yet: "Unmarshal X (buffer p) = (mx, nx, Some ex)"
    and rd: "conn_Read (conn p) 4096 = Some (c, bs, e)"
    and frame: "Unmarshal X (buffer p @ bs) = (Some r, n, None)" "0 \<le> n"
    and reply: "Type r = METHOD_RETURN" "replySerial r = seri_of msg"
    and cb: "callback r (w\<lparr>next_chan := Suc (next_chan w)\<rparr>) = Ok w'"
  shows "SendSync X msg callback p w =
           Some (Ok (None,
                     p\<lparr>conn := fst (conn_Write c (fst (Marshal X msg))),
                       buffer := drop (nat n) (buffer p @ bs),
                       methodCallReplies := (methodCallReplies p)(seri_of msg := None)\<rparr>,
                     w'\<lparr>sent_on := remove1 (next_chan w) (sent_on w' @ [next_chan w])\<rparr>))"
proof -
  let ?ch = "next_chan w"
  let ?w1 = "w\<lparr>next_chan := Suc ?ch\<rparr>"
  let ?p2 = "p\<lparr>methodCallReplies := (methodCallReplies p)(seri_of msg \<mapsto> signalling callback ?ch),
               conn := fst (conn_Write (conn p) (fst (Marshal X msg)))\<rparr>"
  have "RunLoop_until (Unmarshal X) ?ch ?p2 ?w1 =
          Some (Ok (?p2\<lparr>conn := fst (conn_Write c (fst (Marshal X msg))),
                         buffer := drop (nat n) (buffer ?p2 @ bs),
                         methodCallReplies := (methodCallReplies ?p2)(replySerial r := None)\<rparr>,
                    w'\<lparr>sent_on := remove1 ?ch (sent_on w' @ [?ch])\<rparr>))"
  proof (rule RunLoop_until_reply_in_next_read)
    show "?ch \<notin> set (sent_on ?w1)" using fresh by simp
    show "Unmarshal X (buffer ?p2) = (mx, nx, Some ex)" using none_yet by simp
    show "conn_Read (conn ?p2) 4096 = Some (fst (conn_Write c (fst (Marshal X msg))), bs, e)"
      using rd by (simp add: conn_Read_after_Write)
    show "Unmarshal X (buffer ?p2 @ bs) = (Some r, n, None)" using frame by simp
    show "0 \<le> n" by fact
    show "Type r = METHOD_RETURN" by fact
    show "methodCallReplies ?p2 (replySerial r) = Some (signalling callback ?ch)"
      using reply by simp
    show "callback r ?w1 = Ok w'" by fact
  qed
  then show ?thesis
    using reply by (simp add: SendSync_def Let_def)
qed

text \<open>
  C10. When the method lookup succeeds, \<open>CallMethod\<close> never returns an error, whatever
  \<open>_Marshal\<close> and \<open>Write\<close> return, and neither does \<open>_SendSync\<close>: nothing of the
  codec's error or of the write's result reaches the result. And \<open>CallMethod\<close> does
  return \<open>nil\<close>: as soon as the next read
  completes the method return carrying the serial of the call, whether or not the call
  itself went out (on a transport whose writes fail the outbox stays as it was).
\<close>

theorem CallMethod_returns_nil:
  assumes "intf_intro intf = Some d" and "GetMethodData d name = Some method"
  shows "(\<forall>e p' w'. CallMethod X intf name args p w \<noteq> Some (Ok (Some e, p', w')))
       \<and> (\<forall>msg callback e p' w'. SendSync X msg callback p w \<noteq> Some (Ok (Some e, p', w')))
       \<and> (\<forall>mx nx ex c bs e r n.
             next_chan w \<notin> set (sent_on w)
             \<and> Unmarshal X (buffer p) = (mx, nx, Some ex)
             \<and> conn_Read (conn p) 4096 = Some (c, bs, e)
             \<and> Unmarshal X (buffer p @ bs) = (Some r, n, None) \<and> 0 \<le> n
             \<and> Type r = METHOD_RETURN \<and> replySerial r = word_of_int (next_serial w)
             \<longrightarrow> (\<exists>p' w'. CallMethod X intf name args p w = Some (Ok (None, p', w'))
                     \<and> outbox (conn p') = outbox (conn p) @
                          (if wr_error (conn p) = None
                           then [fst (Marshal X (fst (NewMessage w)
                                   \<lparr>Params := List.map_filter (\<lambda>a. a) args,
                                    Type := METHOD_CALL, Path := obj_path (intf_obj intf),
                                    Intf := intf_name intf, Dest := obj_dest (intf_obj intf),
                                    Member := name, Sig := GetInSignature method\<rparr>))]
                           else [])))"
proof (intro conjI allI impI)
  fix e p' w'
  show "CallMethod X intf name args p w \<noteq> Some (Ok (Some e, p', w'))"
    using assms
    by (simp add: CallMethod_def Let_def split_beta split: option.splits result.splits)
next
  fix msg callback e p' w'
  show "SendSync X msg callback p w \<noteq> Some (Ok (Some e, p', w'))"
    by (simp add: SendSync_def Let_def split: option.splits result.splits)
next
  fix mx nx ex c bs e r n
  assume h: "next_chan w \<notin> set (sent_on w)
             \<and> Unmarshal X (buffer p) = (mx, nx, Some ex)
             \<and> conn_Read (conn p) 4096 = Some (c, bs, e)
             \<and> Unmarshal X (buffer p @ bs) = (Some r, n, None) \<and> 0 \<le> n
             \<and> Type r = METHOD_RETURN \<and> replySerial r = word_of_int (next_serial w)"
  let ?w0 = "snd (NewMessage w)"
  let ?msg = "fst (NewMessage w)
                \<lparr>Params := Params (fst (NewMessage w)) @ List.map_filter (\<lambda>a. a) args,
                 Type := METHOD_CALL, Path := obj_path (intf_obj intf),
                 Intf := intf_name intf, Dest := obj_dest (intf_obj intf),
                 Member := name, Sig := GetInSignature method\<rparr>"
  let ?cb = "\<lambda>reply w'. Ok (w'\<lparr>stdout := stdout w' @ [Line (''Method Call Comp: '' @ name)]\<rparr>)"
  let ?w1 = "?w0\<lparr>next_chan := Suc (next_chan ?w0)\<rparr>"
  let ?w' = "?w1\<lparr>stdout := stdout ?w1 @ [Line (''Method Call Comp: '' @ name)]\<rparr>"
  have s: "SendSync X ?msg ?cb p ?w0 =
           Some (Ok (None,
                     p\<lparr>conn := fst (conn_Write c (fst (Marshal X ?msg))),
                       buffer := drop (nat n) (buffer p @ bs),
                       methodCallReplies := (methodCallReplies p)(seri_of ?msg := None)\<rparr>,
                     ?w'\<lparr>sent_on := remove1 (next_chan ?w0) (sent_on ?w' @ [next_chan ?w0])\<rparr>))"
  proof (rule SendSync_reply_in_next_read [where r = r and n = n and c = c and bs = bs
        and e = e and mx = mx and nx = nx and ex = ex and w' = ?w'])
    show "next_chan ?w0 \<notin> set (sent_on ?w0)" using h by (simp add: NewMessage_def)
    show "Unmarshal X (buffer p) = (mx, nx, Some ex)" using h by simp
    show "conn_Read (conn p) 4096 = Some (c, bs, e)" using h by simp
    show "Unmarshal X (buffer p @ bs) = (Some r, n, None)" using h by simp
    show "0 \<le> n" using h by simp
    show "Type r = METHOD_RETURN" using h by simp
    show "replySerial r = seri_of ?msg" using h by (simp add: NewMessage_def seri_of_def)
    show "?cb r ?w1 = Ok ?w'" by simp
  qed
  have c: "outbox c = outbox (conn p)" "wr_error c = wr_error (conn p)"
    using h conn_Read_Some [of "conn p" 4096 c bs e] by simp_all
  show "\<exists>p' w'. CallMethod X intf name args p w = Some (Ok (None, p', w'))
          \<and> outbox (conn p') = outbox (conn p) @
               (if wr_error (conn p) = None
                then [fst (Marshal X (fst (NewMessage w)
                        \<lparr>Params := List.map_filter (\<lambda>a. a) args,
                         Type := METHOD_CALL, Path := obj_path (intf_obj intf),
                         Intf := intf_name intf, Dest := obj_dest (intf_obj intf),
                         Member := name, Sig := GetInSignature method\<rparr>))]
                else [])"
    using assms s c
    by (auto simp add: CallMethod_def Let_def split_beta conn_Write_def NewMessage_def
             split: option.splits)
qed

theorem CallMethod_returns_nil_witness:
  "intf_intro fixture_Interface = Some fixture_Echo
   \<and> GetMethodData fixture_Echo ''Ping'' = Some fixture_Ping
   \<and> Marshal fixture_failing_externals (fst (NewMessage fixture_world)) =
       ([], Some ''marshal failed'')
   \<and> wr_error (conn (fixture_broken_Connection [Data [CHR ''R'', CHR 0x01, CHR ''-'']])) =
       Some ''broken pipe''
   \<and> next_chan fixture_world \<notin> set (sent_on fixture_world)
   \<and> Unmarshal fixture_failing_externals
        (buffer (fixture_broken_Connection [Data [CHR ''R'', CHR 0x01, CHR ''-'']])) =
       (None, 0, Some ''incomplete frame'')
   \<and> conn_Read (conn (fixture_broken_Connection [Data [CHR ''R'', CHR 0x01, CHR ''-'']])) 4096 =
       Some (conn (fixture_broken_Connection []), [CHR ''R'', CHR 0x01, CHR ''-''], None)
   \<and> Unmarshal fixture_failing_externals [CHR ''R'', CHR 0x01, CHR ''-''] =
       (Some (fixture_frame METHOD_RETURN 1 []), 3, None)
   \<and> replySerial (fixture_frame METHOD_RETURN 1 []) = word_of_int (next_serial fixture_world)
   \<and> map_option (map_result (\<lambda>(e, p', w'). (e, outbox (conn p'))))
        (CallMethod fixture_failing_externals fixture_Interface ''Ping'' [Some (VString ''hi'')]
           (fixture_broken_Connection [Data [CHR ''R'', CHR 0x01, CHR ''-'']]) fixture_world) =
       Some (Ok (None, []))"
  using CallMethod_returns_nil
    [of fixture_Interface fixture_Echo "''Ping''" fixture_Ping fixture_failing_externals
        "[Some (VString ''hi'')]"
        "fixture_broken_Connection [Data [CHR ''R'', CHR 0x01, CHR ''-'']]" fixture_world]
  by (simp add: CallMethod_def fixture_Interface_def fixture_Echo_def
        fixture_failing_externals_def fixture_externals_def fixture_broken_Connection_def
        fixture_world_def NewMessage_def SendSync_def seri_of_def RunLoop_until.simps
        MessageReceiver_iteration_def PopMessage_def UpdateBuffer_def conn_Read_def
        conn_Write_def fixture_Unmarshal_def MessageDispatch_def signalling_def
        fixture_frame_def fixture_params_def Let_def)

section \<open>Objects without introspection data\<close>

text \<open>
  An Object whose introspection failed has no Interface: \<open>Connection.Interface\<close> returns
  \<open>nil\<close> for it, and \<open>CallMethod\<close> on an Interface value without metadata panics on the
  method lookup instead of returning \<open>Invalid Method\<close>. And when the peer answers
  \<open>Introspect\<close> with an error message and nothing else, \<open>GetObject\<close> does not return.
\<close>

theorem CallMethod_on_empty_Object_counterexample:
  "map_option (map_result fst)
     (GetObject fixture_externals ''com.example.Echo'' ''/com/example/Echo''
        (fixture_Connection [Data [CHR ''R'', CHR 0x01, CHR ''x'']]) fixture_world) =
     Some (Ok \<lparr>obj_dest = ''com.example.Echo'', obj_path = ''/com/example/Echo'',
               obj_intro = None\<rparr>)
   \<and> GetObject fixture_externals ''com.example.Echo'' ''/com/example/Echo''
        (fixture_Connection [Data [CHR ''E'', CHR 0x01, CHR ''-'']]) fixture_world = None
   \<and> Connection_Interface
        (Some \<lparr>obj_dest = ''com.example.Echo'', obj_path = ''/com/example/Echo'',
               obj_intro = None\<rparr>) ''com.example.Echo'' = None
   \<and> CallMethod fixture_externals
        \<lparr>intf_obj = \<lparr>obj_dest = ''com.example.Echo'', obj_path = ''/com/example/Echo'',
                      obj_intro = None\<rparr>,
         intf_name = ''com.example.Echo'', intf_intro = None\<rparr>
        ''Ping'' [Some (VString ''hi'')] (fixture_Connection []) fixture_world = Some Panic"
  by (simp add: GetObject_def GetIntrospect_def Connection_Interface_def CallMethod_def
        fixture_externals_def fixture_Connection_def fixture_NewIntrospect_def
        introspect_reply_def
        fixture_world_def NewMessage_def SendSync_def seri_of_def RunLoop_until.simps
        MessageReceiver_iteration_def PopMessage_def UpdateBuffer_def conn_Read_def
        conn_Write_def fixture_Unmarshal_def MessageDispatch_def signalling_def
        fixture_frame_def fixture_params_def Let_def)

lemma introspect_reply_no_data:
  assumes "Params r = v # vs"
    and "\<forall>s. v = VString s \<longrightarrow> snd (parse s) \<noteq> None \<or> fst (parse s) = None"
    and "intro_var w a = None"
  shows "\<exists>w'. introspect_reply parse a r w = Ok w' \<and> intro_var w' a = None"
  using assms
  by (cases v) (auto simp add: introspect_reply_def split_beta)

text \<open>
  C8, as the code has it. When the reply to \<open>Introspect\<close> arrives and its first
  parameter is not a string, or is a string from which the parser produces an error or
  no data, \<open>GetObject\<close> returns an Object whose introspection data is \<open>nil\<close>; there is
  no error result. For such an Object \<open>Connection.Interface\<close> returns \<open>nil\<close> whatever
  the name, so no call can be made through it; \<open>CallMethod\<close> on an Interface value
  without metadata panics; and \<open>CallMethod\<close> returns the error \<open>Invalid Method\<close>, with
  nothing sent and nothing changed, when the Interface has metadata and the metadata does
  not know the method.
\<close>

theorem GetObject_without_introspection:
  "(\<forall>mx nx ex c bs e r n v vs.
       next_chan w \<notin> set (sent_on w)
       \<and> Unmarshal X (buffer p) = (mx, nx, Some ex)
       \<and> conn_Read (conn p) 4096 = Some (c, bs, e)
       \<and> Unmarshal X (buffer p @ bs) = (Some r, n, None) \<and> 0 \<le> n
       \<and> Type r = METHOD_RETURN \<and> replySerial r = word_of_int (next_serial w)
       \<and> Params r = v # vs
       \<and> (\<forall>s. v = VString s \<longrightarrow>
              snd (NewIntrospect X s) \<noteq> None \<or> fst (NewIntrospect X s) = None)
       \<longrightarrow> (\<exists>p' w'. GetObject X dest pth p w =
               Some (Ok (\<lparr>obj_dest = dest, obj_path = pth, obj_intro = None\<rparr>, p', w'))))
   \<and> (\<forall>name. Connection_Interface
                 (Some \<lparr>obj_dest = dest, obj_path = pth, obj_intro = None\<rparr>) name = None)
   \<and> (\<forall>intf name args. intf_intro intf = None \<longrightarrow>
          CallMethod X intf name args p w = Some Panic)
   \<and> (\<forall>intf d name args. intf_intro intf = Some d \<and> GetMethodData d name = None \<longrightarrow>
          CallMethod X intf name args p w = Some (Ok (os_NewError ''Invalid Method'', p, w)))"
proof (intro conjI allI impI)
  fix mx nx ex c bs e r n v vs
  assume h: "next_chan w \<notin> set (sent_on w)
       \<and> Unmarshal X (buffer p) = (mx, nx, Some ex)
       \<and> conn_Read (conn p) 4096 = Some (c, bs, e)
       \<and> Unmarshal X (buffer p @ bs) = (Some r, n, None) \<and> 0 \<le> n
       \<and> Type r = METHOD_RETURN \<and> replySerial r = word_of_int (next_serial w)
       \<and> Params r = v # vs
       \<and> (\<forall>s. v = VString s \<longrightarrow>
              snd (NewIntrospect X s) \<noteq> None \<or> fst (NewIntrospect X s) = None)"
  let ?w0 = "snd (NewMessage w)"
  let ?msg = "fst (NewMessage w)
                \<lparr>Type := METHOD_CALL, Path := pth, Dest := dest,
                 Intf := ''org.freedesktop.DBus.Introspectable'', Member := ''Introspect''\<rparr>"
  let ?a = "next_var ?w0"
  let ?w1 = "?w0\<lparr>next_var := Suc ?a, intro_var := (intro_var ?w0)(?a := None)\<rparr>"
  let ?w2 = "?w1\<lparr>next_chan := Suc (next_chan ?w1)\<rparr>"
  obtain w' where cb: "introspect_reply (NewIntrospect X) ?a r ?w2 = Ok w'"
    and nil: "intro_var w' ?a = None"
    using introspect_reply_no_data [of r v vs "NewIntrospect X" ?w2 ?a] h by auto
  have s: "SendSync X ?msg (introspect_reply (NewIntrospect X) ?a) p ?w1 =
           Some (Ok (None,
                     p\<lparr>conn := fst (conn_Write c (fst (Marshal X ?msg))),
                       buffer := drop (nat n) (buffer p @ bs),
                       methodCallReplies := (methodCallReplies p)(seri_of ?msg := None)\<rparr>,
                     w'\<lparr>sent_on := remove1 (next_chan ?w1) (sent_on w' @ [next_chan ?w1])\<rparr>))"
  proof (rule SendSync_reply_in_next_read [where r = r and n = n and c = c and bs = bs
        and e = e and mx = mx and nx = nx and ex = ex and w' = w'])
    show "next_chan ?w1 \<notin> set (sent_on ?w1)" using h by (simp add: NewMessage_def)
    show "Unmarshal X (buffer p) = (mx, nx, Some ex)" using h by simp
    show "conn_Read (conn p) 4096 = Some (c, bs, e)" using h by simp
    show "Unmarshal X (buffer p @ bs) = (Some r, n, None)" using h by simp
    show "0 \<le> n" using h by simp
    show "Type r = METHOD_RETURN" using h by simp
    show "replySerial r = seri_of ?msg" using h by (simp add: NewMessage_def seri_of_def)
    show "introspect_reply (NewIntrospect X) ?a r ?w2 = Ok w'" by (rule cb)
  qed
  show "\<exists>p' w'. GetObject X dest pth p w =
               Some (Ok (\<lparr>obj_dest = dest, obj_path = pth, obj_intro = None\<rparr>, p', w'))"
    using s nil
    by (simp add: GetObject_def GetIntrospect_def Let_def split_beta)
next
  fix name
  show "Connection_Interface
          (Some \<lparr>obj_dest = dest, obj_path = pth, obj_intro = None\<rparr>) name = None"
    by (simp add: Connection_Interface_def)
next
  fix intf :: Interface and name args
  assume "intf_intro intf = None"
  then show "CallMethod X intf name args p w = Some Panic"
    by (simp add: CallMethod_def)
next
  fix intf :: Interface and d name args
  assume "intf_intro intf = Some d \<and> GetMethodData d name = None"
  then show "CallMethod X intf name args p w = Some (Ok (os_NewError ''Invalid Method'', p, w))"
    by (simp add: CallMethod_def)
qed

theorem GetObject_without_introspection_witness:
  "next_chan fixture_world \<notin> set (sent_on fixture_world)
   \<and> Unmarshal fixture_externals
        (buffer (fixture_Connection [Data [CHR ''R'', CHR 0x01, CHR ''x'']])) =
       (None, 0, Some ''incomplete frame'')
   \<and> conn_Read (conn (fixture_Connection [Data [CHR ''R'', CHR 0x01, CHR ''x'']])) 4096 =
       Some (conn (fixture_Connection []), [CHR ''R'', CHR 0x01, CHR ''x''], None)
   \<and> Unmarshal fixture_externals [CHR ''R'', CHR 0x01, CHR ''x''] =
       (Some (fixture_frame METHOD_RETURN 1 [VString ''<node/>'']), 3, None)
   \<and> snd (NewIntrospect fixture_externals ''<node/>'') \<noteq> None
   \<and> map_option (map_result fst)
        (GetObject fixture_externals ''com.example.Echo'' ''/com/example/Echo''
           (fixture_Connection [Data [CHR ''R'', CHR 0x01, CHR ''x'']]) fixture_world) =
       Some (Ok \<lparr>obj_dest = ''com.example.Echo'', obj_path = ''/com/example/Echo'',
                 obj_intro = None\<rparr>)
   \<and> Connection_Interface
        (Some \<lparr>obj_dest = ''com.example.Echo'', obj_path = ''/com/example/Echo'',
               obj_intro = None\<rparr>) ''com.example.Echo'' = None
   \<and> GetMethodData fixture_Echo ''Pong'' = None
   \<and> CallMethod fixture_externals fixture_Interface ''Pong'' []
        (fixture_Connection []) fixture_world =
       Some (Ok (os_NewError ''Invalid Method'', fixture_Connection [], fixture_world))"
  using GetObject_without_introspection
    [of fixture_world fixture_externals
        "fixture_Connection [Data [CHR ''R'', CHR 0x01, CHR ''x'']]"
        "''com.example.Echo''" "''/com/example/Echo''"]
  by (simp add: GetObject_def GetIntrospect_def Connection_Interface_def CallMethod_def
        fixture_externals_def fixture_Connection_def fixture_NewIntrospect_def
        fixture_Interface_def fixture_Echo_def introspect_reply_def
        fixture_world_def NewMessage_def SendSync_def seri_of_def RunLoop_until.simps
        MessageReceiver_iteration_def PopMessage_def UpdateBuffer_def conn_Read_def
        conn_Write_def fixture_Unmarshal_def MessageDispatch_def signalling_def
        fixture_frame_def fixture_params_def Let_def)

end
